theory Spec2Isabelle
  imports Complex_Main
begin

section \<open>Values shared by the modules\<close>

text \<open>
  A JavaScript number that is finite is a rational; a value that is not a finite number
  (\<^verbatim>\<open>undefined\<close>, \<^verbatim>\<open>null\<close>, \<^verbatim>\<open>NaN\<close>, an infinity) is \<open>None\<close> where the source tests
  \<^verbatim>\<open>Number.isFinite\<close>. A string field that is missing behaves like the empty string in
  every test of the source (both are falsy), so it is the empty string.
\<close>

type_synonym number = rat

text \<open>
  The errors of \<^verbatim>\<open>token-manager.js\<close>, \<^verbatim>\<open>scraper-final.js\<close> and \<^verbatim>\<open>enricher.js\<close>. The two
  classes \<^verbatim>\<open>TokenExpiredError\<close> and \<^verbatim>\<open>TokenRefreshError\<close> carry the reason of their message;
  the plain \<^verbatim>\<open>Error\<close> objects of the request code are told apart by the properties the
  source attaches to them (\<^verbatim>\<open>statusCode\<close>, \<^verbatim>\<open>retryable\<close>, \<^verbatim>\<open>code\<close>). \<^verbatim>\<open>TypeError\<close> and
  \<^verbatim>\<open>RangeError\<close> are the errors the platform raises on a member access on \<^verbatim>\<open>null\<close>, a call
  of a member that is not a function, a spread of a value that is not iterable, and a
  date out of range.
\<close>

datatype expired_reason =
    UnreadableSession
  | InvalidSessionFormat
  | NoRefreshToken
  | Http401

datatype refresh_reason =
    EndpointStatus nat
  | UnparseableRefreshBody
  | NoAccessTokenInBody
  | RefreshTimedOut
  | RefreshRequestFailed

datatype error =
    TokenExpiredError expired_reason
  | TokenRefreshError refresh_reason
  | HttpError nat
  | ParseError
  | TimeoutError
  | ConnectionError
  | MissingDetail
  | RetriesExhausted
  | TypeError
  | RangeError

fun requiresManualReauth :: "error \<Rightarrow> bool" where
  "requiresManualReauth (TokenExpiredError r) = True"
| "requiresManualReauth (TokenRefreshError r) = True"
| "requiresManualReauth e = False"

fun isTokenExpiredError :: "error \<Rightarrow> bool" where
  "isTokenExpiredError (TokenExpiredError r) = True"
| "isTokenExpiredError e = False"

fun statusCode :: "error \<Rightarrow> nat option" where
  "statusCode (HttpError s) = Some s"
| "statusCode e = None"

text \<open>
  The \<^verbatim>\<open>retryable\<close> property: set from the status on an HTTP error, \<^verbatim>\<open>false\<close> on a parse
  error, \<^verbatim>\<open>true\<close> on a timeout and on every other error of the connection.
\<close>

fun retryable :: "error \<Rightarrow> bool" where
  "retryable (HttpError s) = (500 \<le> s \<and> s < 600)"
| "retryable TimeoutError = True"
| "retryable ConnectionError = True"
| "retryable e = False"

section \<open>The data of the credential bundle and of the endpoints\<close>

record cookie =
  cookie_name :: string
  cookie_value :: string
  expires :: "number option"
  cookie_domain :: string
  cookie_path :: string
  httpOnly :: "bool option"
  secure :: "bool option"
  sameSite :: string

text \<open>
  The file \<^verbatim>\<open>session.json\<close>: it cannot be read, or it is not JSON text, or it is the
  JSON text \<^verbatim>\<open>null\<close>, or it holds a list of cookies (a \<^verbatim>\<open>cookies\<close> member that is missing
  or not an array reads as the empty list).
\<close>

datatype session_file =
    Unreadable
  | Malformed
  | NullDocument
  | Session "cookie list"

text \<open>The body of the refresh grant's reply, and the reply itself.\<close>

record token_payload =
  access_token :: string
  refresh_token :: string
  expires_in :: "number option"
  refresh_expires_in :: "number option"

datatype refresh_body =
    BodyUnparseable
  | BodyNotObject
  | BodyObject token_payload

datatype refresh_reply =
    RefreshResponse nat refresh_body
  | RefreshTimeout
  | RefreshFailure

text \<open>
  An HTTP exchange as the request code sees it: a response with its status and body, the
  timer of the request firing first, or an error event of the connection.
\<close>

datatype 'b http_reply =
    Reply nat 'b
  | TimedOut
  | ConnectionFailed

text \<open>
  A member that should hold text: a string, nothing (\<^verbatim>\<open>null\<close> or \<^verbatim>\<open>undefined\<close>), or a
  value of another type, which has no \<^verbatim>\<open>substring\<close>.
\<close>

datatype text_member =
    Text string
  | Absent
  | NotText

text \<open>
  A listing of the search endpoint. The numeric members are what \<^verbatim>\<open>Number(...)\<close> gives
  (\<open>None\<close> for \<^verbatim>\<open>NaN\<close>); \<^verbatim>\<open>nombre\<close> is \<open>None\<close> when it is not a string.
\<close>

record opportunity =
  codigo :: string
  nombre :: "string option"
  organismo :: string
  montoDisponible :: "number option"
  fechaCierre :: text_member
  misOfertas :: "number option"
  numeroOfertas :: "number option"

text \<open>
  An element of \<^verbatim>\<open>resultados\<close>: a listing, \<^verbatim>\<open>null\<close>, or a value that is not an object (a
  number, a string, a character of a string that stands where the array should), whose
  members all read as \<^verbatim>\<open>undefined\<close>.
\<close>

datatype item =
    Item opportunity
  | NullItem
  | Primitive

text \<open>
  The member \<^verbatim>\<open>resultados\<close>: missing or falsy; truthy but neither iterable nor of length
  0 (a number, \<^verbatim>\<open>true\<close>, an object); or a sequence of elements (an array, or a string,
  whose elements are its characters).
\<close>

datatype results_member =
    NoResults
  | NotIterable
  | Items "item list"

text \<open>
  The body of a search response, \<^verbatim>\<open>{payload: {resultados, pageCount}}\<close>: \<open>payload\<close> is
  \<open>None\<close> when the member is missing or falsy, \<open>pageCount\<close> is \<open>None\<close> when it does not
  compare as a number. A body that parses is the JSON text \<^verbatim>\<open>null\<close> or another value; a
  value that is not an object has no \<open>payload\<close>.
\<close>

record search_payload =
  resultados :: results_member
  pageCount :: "number option"

record search_response =
  payload :: "search_payload option"

datatype search_body =
    SearchUnparseable
  | SearchNull
  | SearchJson search_response

text \<open>The body of a detail response, \<^verbatim>\<open>{payload: {detalleSolicitud}}\<close>.\<close>

record producto =
  codigoProducto :: string
  cantidad :: "number option"
  producto_descripcion :: string
  producto_nombre :: string
  unidad_codigo :: string
  unidad_nombre :: string

record detalleSolicitud =
  descripcion :: string
  moneda :: string
  montoMoneda :: "number option"
  montoTotalEstimado :: "number option"
  plazoEntrega :: "number option"
  direccion :: string
  productos :: "producto list option"
  institucion_empresa :: string
  institucion_organizacion :: string
  institucion_rut :: string

datatype detail_body =
    DetailUnparseable
  | DetailJson "detalleSolicitud option"

record enriched =
  enriched_codigo :: string
  enriched_nombre :: "string option"
  enriched_organismo :: string
  enriched_montoDisponible :: "number option"
  enriched_fechaCierre :: text_member
  detalle :: detalleSolicitud

text \<open>What a call does to the outside: requests sent, files written, time slept.\<close>

datatype event =
    RefreshPost string
  | SessionWrite
  | HttpGet nat nat
  | DetailGet string nat
  | Sleep nat

record world =
  session :: session_file
  events :: "event list"

text \<open>
  What a call reads from the outside:
  \<^item> the clock (\<^verbatim>\<open>Date.now()\<close>, milliseconds) at the moment of the call; a run that
    sleeps and waits for replies hands the clock on, moved by the time its events took
    (see \<open>clockAt\<close> below);
  \<^item> the \<^verbatim>\<open>exp\<close> member of a token's payload as the base64url and JSON decoders of the
    platform give it (\<open>None\<close> when the string has fewer than two parts, does not decode,
    or has no finite \<^verbatim>\<open>exp\<close>);
  \<^item> the same member as the monitor reads it: \<^verbatim>\<open>Number(payload.exp)\<close> when \<^verbatim>\<open>payload.exp\<close>
    is truthy, so also for an \<^verbatim>\<open>exp\<close> written as a numeric string (\<open>None\<close> when the
    string has fewer than two parts, does not decode, has a falsy \<^verbatim>\<open>exp\<close>, or one whose
    number is \<^verbatim>\<open>NaN\<close>; an \<^verbatim>\<open>exp\<close> beyond the finite numbers is not told apart from these);
  \<^item> the time an event took, in milliseconds: for a request the wait for its reply, for
    a sleep the time by which the timer fired late;
  \<^item> \<^verbatim>\<open>new Date(s).getTime()\<close> (\<open>None\<close> for \<^verbatim>\<open>NaN\<close>);
  \<^item> the token endpoint's reply to a refresh grant with a given refresh token;
  \<^item> the search endpoint's reply to the request of a page at a given attempt (attempts
    count from 1), the detail endpoint's reply for a listing code at a given attempt
    (attempts count from 0), and the reply to the monitor's probe with a given bearer
    token.
\<close>

record env =
  nowMs :: int
  jwtPayloadExp :: "string \<Rightarrow> number option"
  jwtPayloadExpNumber :: "string \<Rightarrow> number option"
  waitMs :: "event \<Rightarrow> nat"
  dateParse :: "string \<Rightarrow> int option"
  tokenEndpoint :: "string \<Rightarrow> refresh_reply"
  searchApi :: "nat \<Rightarrow> nat \<Rightarrow> search_body http_reply"
  detailApi :: "string \<Rightarrow> nat \<Rightarrow> detail_body http_reply"
  probeReply :: "string \<Rightarrow> unit http_reply"

section \<open>token-manager.js\<close>

definition ACCESS_MIN_VALIDITY_SECONDS :: number where
  "ACCESS_MIN_VALIDITY_SECONDS = 300"

text \<open>JavaScript's \<^verbatim>\<open>a || b\<close> on numbers that may be null: zero and null are falsy.\<close>

fun jsOr :: "number option \<Rightarrow> number option \<Rightarrow> number option" where
  "jsOr None b = b"
| "jsOr (Some x) b = (if x = 0 then b else Some x)"

definition decodeJwtExp :: "env \<Rightarrow> string \<Rightarrow> number option" where
  "decodeJwtExp e token = (if token = [] then None else jwtPayloadExp e token)"

definition normalizeEpochSeconds :: "number option \<Rightarrow> number option" where
  "normalizeEpochSeconds v =
     (case v of
        None \<Rightarrow> None
      | Some x \<Rightarrow> (let n = \<lfloor>x\<rfloor> in if n > 0 then Some (of_int n) else None))"

definition nowEpochSeconds :: "env \<Rightarrow> number" where
  "nowEpochSeconds e = of_int (nowMs e div 1000)"

definition secondsRemaining :: "env \<Rightarrow> number option \<Rightarrow> number option" where
  "secondsRemaining e expEpochSeconds =
     (case expEpochSeconds of
        None \<Rightarrow> None
      | Some x \<Rightarrow> if x = 0 then None else Some (x - nowEpochSeconds e))"

definition readSessionFileOrThrow :: "session_file \<Rightarrow> error + cookie list" where
  "readSessionFileOrThrow f =
     (case f of
        Unreadable \<Rightarrow> Inl (TokenExpiredError UnreadableSession)
      | Malformed \<Rightarrow> Inl (TokenExpiredError InvalidSessionFormat)
      | NullDocument \<Rightarrow> Inl (TokenExpiredError InvalidSessionFormat)
      | Session cs \<Rightarrow> Inr cs)"

fun findCookie :: "cookie list \<Rightarrow> string list \<Rightarrow> cookie option" where
  "findCookie cookies [] = None"
| "findCookie cookies (n # ns) =
     (case find (\<lambda>c. cookie_name c = n) cookies of
        Some c \<Rightarrow> Some c
      | None \<Rightarrow> findCookie cookies ns)"

text \<open>\<^verbatim>\<open>a || b\<close> on cookies that may be null.\<close>

fun orElse :: "'a option \<Rightarrow> 'a option \<Rightarrow> 'a option" where
  "orElse (Some x) b = Some x"
| "orElse None b = b"

definition findAccessCookie :: "cookie list \<Rightarrow> cookie option" where
  "findAccessCookie cookies =
     orElse (findCookie cookies [''access_token_ccr'']) (findCookie cookies [''access_token''])"

record token_state =
  cookieName :: "string option"
  present :: bool
  expiresAtEpochSeconds :: "number option"
  state_secondsRemaining :: "number option"
  isExpired :: "bool option"
  isExpiringSoon :: "bool option"

text \<open>
  The members of the state that \<^verbatim>\<open>buildTokenState\<close> computes before it formats the expiry
  as an ISO date.
\<close>

definition tokenStateFields ::
  "env \<Rightarrow> string option \<Rightarrow> string \<Rightarrow> number option \<Rightarrow> token_state" where
  "tokenStateFields e cName cValue cExpires =
     (let jwtExp = decodeJwtExp e cValue;
          cookieExp = normalizeEpochSeconds cExpires;
          expEpochSeconds = jsOr jwtExp cookieExp;
          remaining = secondsRemaining e expEpochSeconds
      in \<lparr> cookieName = cName,
           present = (cValue \<noteq> []),
           expiresAtEpochSeconds = expEpochSeconds,
           state_secondsRemaining = remaining,
           isExpired = map_option (\<lambda>r. r \<le> 0) remaining,
           isExpiringSoon = map_option (\<lambda>r. r \<le> ACCESS_MIN_VALIDITY_SECONDS) remaining \<rparr>)"

text \<open>
  \<^verbatim>\<open>new Date(ms).toISOString()\<close> raises a \<^verbatim>\<open>RangeError\<close> when the time is beyond the range
  of dates, 8.64e15 ms on either side of the epoch.
\<close>

definition dateInRange :: "number \<Rightarrow> bool" where
  "dateInRange ms = (\<bar>ms\<bar> \<le> 8640000000000000)"

text \<open>
  \<^verbatim>\<open>buildTokenState\<close>: the members above and \<^verbatim>\<open>expiresAtISO\<close>, which is formatted when the
  expiry is known; the record leaves the text of the date out.
\<close>

definition buildTokenState ::
  "env \<Rightarrow> string option \<Rightarrow> string \<Rightarrow> number option \<Rightarrow> error + token_state" where
  "buildTokenState e cName cValue cExpires =
     (let st = tokenStateFields e cName cValue cExpires
      in case expiresAtEpochSeconds st of
           None \<Rightarrow> Inr st
         | Some x \<Rightarrow> if dateInRange (x * 1000) then Inr st else Inl RangeError)"

definition readSessionFileSafe :: "session_file \<Rightarrow> cookie list" where
  "readSessionFileSafe f =
     (case readSessionFileOrThrow f of Inl err \<Rightarrow> [] | Inr cs \<Rightarrow> cs)"

text \<open>
  The members of the access token's state as \<^verbatim>\<open>inspectToken\<close> computes them from the stored
  bundle; a file that cannot be read gives those of an empty bundle.
\<close>

definition inspectAccessToken :: "env \<Rightarrow> session_file \<Rightarrow> token_state" where
  "inspectAccessToken e f =
     (let accessCookie = findAccessCookie (readSessionFileSafe f)
      in tokenStateFields e
           (map_option cookie_name accessCookie)
           (case accessCookie of None \<Rightarrow> [] | Some c \<Rightarrow> cookie_value c)
           (case accessCookie of None \<Rightarrow> None | Some c \<Rightarrow> expires c))"

text \<open>
  \<^verbatim>\<open>inspectToken\<close>: the states of the access token and of the refresh token. It never
  refreshes and it reads a file that cannot be read as an empty bundle, but the
  formatting of either expiry can raise.
\<close>

definition inspectToken :: "env \<Rightarrow> session_file \<Rightarrow> error + (token_state \<times> token_state)" where
  "inspectToken e f =
     (let cookies = readSessionFileSafe f;
          accessCookie = findAccessCookie cookies;
          refreshCookie = findCookie cookies [''refresh_token'']
      in case buildTokenState e
                (map_option cookie_name accessCookie)
                (case accessCookie of None \<Rightarrow> [] | Some c \<Rightarrow> cookie_value c)
                (case accessCookie of None \<Rightarrow> None | Some c \<Rightarrow> expires c) of
           Inl err \<Rightarrow> Inl err
         | Inr accessState \<Rightarrow>
             (case buildTokenState e
                     (map_option cookie_name refreshCookie)
                     (case refreshCookie of None \<Rightarrow> [] | Some c \<Rightarrow> cookie_value c)
                     (case refreshCookie of None \<Rightarrow> None | Some c \<Rightarrow> expires c) of
                Inl err \<Rightarrow> Inl err
              | Inr refreshState \<Rightarrow> Inr (accessState, refreshState)))"

fun updateFirst :: "('a \<Rightarrow> bool) \<Rightarrow> ('a \<Rightarrow> 'a) \<Rightarrow> 'a list \<Rightarrow> 'a list" where
  "updateFirst P f [] = []"
| "updateFirst P f (x # xs) = (if P x then f x # xs else x # updateFirst P f xs)"

definition orDefault :: "string \<Rightarrow> string \<Rightarrow> string" where
  "orDefault s d = (if s = [] then d else s)"

definition upsertCookie ::
  "cookie list \<Rightarrow> string \<Rightarrow> string \<Rightarrow> number option \<Rightarrow> cookie option \<Rightarrow> cookie list" where
  "upsertCookie cookies nm v expEpochSeconds template =
     (let exp = normalizeEpochSeconds expEpochSeconds
      in case find (\<lambda>c. cookie_name c = nm) cookies of
           Some existing \<Rightarrow>
             updateFirst (\<lambda>c. cookie_name c = nm)
               (\<lambda>c. (case exp of
                        None \<Rightarrow> c\<lparr>cookie_value := v\<rparr>
                      | Some x \<Rightarrow> c\<lparr>cookie_value := v, expires := Some x\<rparr>))
               cookies
         | None \<Rightarrow>
             cookies @
             [\<lparr> cookie_name = nm,
                cookie_value = v,
                expires = (case exp of None \<Rightarrow> Some (- 1) | Some x \<Rightarrow> Some x),
                cookie_domain =
                  orDefault (case template of None \<Rightarrow> [] | Some t \<Rightarrow> cookie_domain t)
                    ''heimdall.mercadopublico.cl'',
                cookie_path =
                  orDefault (case template of None \<Rightarrow> [] | Some t \<Rightarrow> cookie_path t) ''/'',
                httpOnly =
                  (case template of
                     None \<Rightarrow> Some True
                   | Some t \<Rightarrow> (case httpOnly t of None \<Rightarrow> Some True | Some b \<Rightarrow> Some b)),
                secure =
                  (case template of
                     None \<Rightarrow> Some True
                   | Some t \<Rightarrow> (case secure t of None \<Rightarrow> Some True | Some b \<Rightarrow> Some b)),
                sameSite =
                  orDefault (case template of None \<Rightarrow> [] | Some t \<Rightarrow> sameSite t) ''Lax'' \<rparr>])"

text \<open>
  \<^verbatim>\<open>requestTokenRefresh\<close>: one POST of the refresh grant. Every way it can fail is a
  \<^verbatim>\<open>TokenRefreshError\<close>; there is no loop around the request.
\<close>

definition requestTokenRefresh :: "env \<Rightarrow> string \<Rightarrow> world \<Rightarrow> (error + token_payload) \<times> world" where
  "requestTokenRefresh e refreshToken w =
     (let w' = w\<lparr>events := events w @ [RefreshPost refreshToken]\<rparr>
      in case tokenEndpoint e refreshToken of
           RefreshTimeout \<Rightarrow> (Inl (TokenRefreshError RefreshTimedOut), w')
         | RefreshFailure \<Rightarrow> (Inl (TokenRefreshError RefreshRequestFailed), w')
         | RefreshResponse status body \<Rightarrow>
             if status \<noteq> 200 then (Inl (TokenRefreshError (EndpointStatus status)), w')
             else (case body of
                     BodyUnparseable \<Rightarrow> (Inl (TokenRefreshError UnparseableRefreshBody), w')
                   | BodyNotObject \<Rightarrow> (Inl (TokenRefreshError NoAccessTokenInBody), w')
                   | BodyObject parsed \<Rightarrow>
                       if access_token parsed = []
                       then (Inl (TokenRefreshError NoAccessTokenInBody), w')
                       else (Inr parsed, w')))"

definition persistRefreshedTokens ::
  "env \<Rightarrow> cookie list \<Rightarrow> token_payload \<Rightarrow> cookie \<Rightarrow> world \<Rightarrow> world" where
  "persistRefreshedTokens e cookies refreshed fallbackRefreshCookie w =
     (let accessToken = access_token refreshed;
          refreshToken = orDefault (refresh_token refreshed) (cookie_value fallbackRefreshCookie);
          accessExp =
            jsOr (decodeJwtExp e accessToken)
              (map_option (\<lambda>d. nowEpochSeconds e + d) (expires_in refreshed));
          refreshExp =
            jsOr (decodeJwtExp e refreshToken)
              (case refresh_expires_in refreshed of
                 Some d \<Rightarrow> Some (nowEpochSeconds e + d)
               | None \<Rightarrow> normalizeEpochSeconds (expires fallbackRefreshCookie));
          accessTemplate =
            orElse (findCookie cookies [''access_token_ccr''])
              (orElse (findCookie cookies [''access_token''])
                 (findCookie cookies [''KEYCLOAK_IDENTITY'']));
          cookies1 = upsertCookie cookies ''access_token_ccr'' accessToken accessExp accessTemplate;
          cookies2 = upsertCookie cookies1 ''access_token'' accessToken accessExp accessTemplate;
          cookies3 =
            upsertCookie cookies2 ''refresh_token'' refreshToken refreshExp
              (Some fallbackRefreshCookie)
      in w\<lparr>session := Session cookies3, events := events w @ [SessionWrite]\<rparr>)"

text \<open>\<^verbatim>\<open>remaining !== null && remaining > ACCESS_MIN_VALIDITY_SECONDS\<close>.\<close>

definition exceedsMinValidity :: "number option \<Rightarrow> bool" where
  "exceedsMinValidity remaining =
     (case remaining of None \<Rightarrow> False | Some r \<Rightarrow> r > ACCESS_MIN_VALIDITY_SECONDS)"

definition getValidToken :: "env \<Rightarrow> world \<Rightarrow> (error + string) \<times> world" where
  "getValidToken e w =
     (case readSessionFileOrThrow (session w) of
        Inl err \<Rightarrow> (Inl err, w)
      | Inr cookies \<Rightarrow>
          (let accessCookie = findAccessCookie cookies;
               refreshCookie = findCookie cookies [''refresh_token''];
               accessToken = (case accessCookie of None \<Rightarrow> [] | Some c \<Rightarrow> cookie_value c);
               accessExp =
                 jsOr (decodeJwtExp e accessToken)
                   (normalizeEpochSeconds
                      (case accessCookie of None \<Rightarrow> None | Some c \<Rightarrow> expires c));
               remaining = secondsRemaining e accessExp
           in if accessToken \<noteq> [] \<and> exceedsMinValidity remaining then (Inr accessToken, w)
              else
                (case refreshCookie of
                   None \<Rightarrow> (Inl (TokenExpiredError NoRefreshToken), w)
                 | Some rc \<Rightarrow>
                     if cookie_value rc = [] then (Inl (TokenExpiredError NoRefreshToken), w)
                     else
                       (case requestTokenRefresh e (cookie_value rc) w of
                          (Inl err, w') \<Rightarrow> (Inl err, w')
                        | (Inr refreshed, w') \<Rightarrow>
                            (Inr (access_token refreshed),
                             persistRefreshedTokens e cookies refreshed rc w')))))"

section \<open>scraper-final.js\<close>

text \<open>
  The time the events of a run took, and the environment a call reads after them: the
  clock has moved on by that time. A sleep takes its delay and the time by which its
  timer fires late.
\<close>

definition eventMs :: "env \<Rightarrow> event \<Rightarrow> nat" where
  "eventMs e ev = (case ev of Sleep ms \<Rightarrow> ms + waitMs e ev | _ \<Rightarrow> waitMs e ev)"

definition elapsedMs :: "env \<Rightarrow> event list \<Rightarrow> nat" where
  "elapsedMs e evs = sum_list (map (eventMs e) evs)"

definition clockAt :: "env \<Rightarrow> world \<Rightarrow> env" where
  "clockAt e w = e\<lparr>nowMs := nowMs e + int (elapsedMs e (events w))\<rparr>"

text \<open>
  \<^verbatim>\<open>requestOpportunities\<close>: one GET of a page. The attempt number only selects the reply
  of the endpoint; the bearer token travels in the request the endpoint answers. The
  value it resolves with is what \<^verbatim>\<open>JSON.parse\<close> gives, \<open>None\<close> for \<^verbatim>\<open>null\<close>.
\<close>

definition requestOpportunities ::
  "env \<Rightarrow> nat \<Rightarrow> nat \<Rightarrow> error + search_response option" where
  "requestOpportunities e page attempt =
     (case searchApi e page attempt of
        Reply status body \<Rightarrow>
          if status = 200 then
            (case body of
               SearchUnparseable \<Rightarrow> Inl ParseError
             | SearchNull \<Rightarrow> Inr None
             | SearchJson r \<Rightarrow> Inr (Some r))
          else if status = 401 then Inl (TokenExpiredError Http401)
          else Inl (HttpError status)
      | TimedOut \<Rightarrow> Inl TimeoutError
      | ConnectionFailed \<Rightarrow> Inl ConnectionError)"

text \<open>\<^verbatim>\<open>error.retryable === true || (error.statusCode >= 500 && error.statusCode < 600)\<close>\<close>

definition isRetryable :: "error \<Rightarrow> bool" where
  "isRetryable err =
     (retryable err \<or> (case statusCode err of None \<Rightarrow> False | Some s \<Rightarrow> 500 \<le> s \<and> s < 600))"

text \<open>
  The retry loop of \<^verbatim>\<open>fetchOpportunities\<close>, from a given attempt (the source starts at 1
  and stops after \<^verbatim>\<open>this.maxAttempts\<close>). It returns the outcome and what it did, in order.
\<close>

function fetchAttempts ::
  "env \<Rightarrow> nat \<Rightarrow> nat \<Rightarrow> nat \<Rightarrow> (error + search_response option) \<times> event list" where
  "fetchAttempts e maxAttempts page attempt =
     (if attempt \<le> maxAttempts then
        (case requestOpportunities e page attempt of
           Inr r \<Rightarrow> (Inr r, [HttpGet page attempt])
         | Inl err \<Rightarrow>
             if isTokenExpiredError err then (Inl err, [HttpGet page attempt])
             else if statusCode err = Some 400 then (Inl err, [HttpGet page attempt])
             else if \<not> isRetryable err \<or> attempt = maxAttempts
               then (Inl err, [HttpGet page attempt])
             else
               (let delaySeconds = 2 ^ (attempt - 1);
                    rest = fetchAttempts e maxAttempts page (attempt + 1)
                in (fst rest, HttpGet page attempt # Sleep (delaySeconds * 1000) # snd rest)))
      else (Inl RetriesExhausted, []))"
  by pat_completeness auto
termination
  by (relation "measure (\<lambda>(e, maxAttempts, page, attempt). Suc maxAttempts - attempt)") auto

declare fetchAttempts.simps [simp del]

definition defaultMaxAttempts :: nat where
  "defaultMaxAttempts = 3"

text \<open>
  \<^verbatim>\<open>fetchOpportunities\<close>: the token, read at the clock of the call, then the retry loop.
\<close>

definition fetchOpportunities ::
  "env \<Rightarrow> nat \<Rightarrow> nat \<Rightarrow> world \<Rightarrow> (error + search_response option) \<times> world" where
  "fetchOpportunities e maxAttempts page w =
     (case getValidToken (clockAt e w) w of
        (Inl err, w') \<Rightarrow> (Inl err, w')
      | (Inr bearerToken, w') \<Rightarrow>
          (let r = fetchAttempts e maxAttempts page 1
           in (fst r, w'\<lparr>events := events w' @ snd r\<rparr>)))"

text \<open>\<^verbatim>\<open>page >= response.payload.pageCount\<close>\<close>

definition reachedPageCount :: "nat \<Rightarrow> number option \<Rightarrow> bool" where
  "reachedPageCount page pc = (case pc of None \<Rightarrow> False | Some c \<Rightarrow> of_nat page \<ge> c)"

text \<open>
  The sample that \<^verbatim>\<open>scrape\<close> prints of the first listing of page 1 calls
  \<^verbatim>\<open>first.nombre.substring\<close> and \<^verbatim>\<open>first.fechaCierre?.substring\<close>: it raises a \<^verbatim>\<open>TypeError\<close>
  unless the element is an object whose \<^verbatim>\<open>nombre\<close> is a string and whose \<^verbatim>\<open>fechaCierre\<close> is
  a string or nothing.
\<close>

definition samplePrints :: "item \<Rightarrow> bool" where
  "samplePrints first =
     (case first of
        Item opp \<Rightarrow> nombre opp \<noteq> None \<and> fechaCierre opp \<noteq> NotText
      | NullItem \<Rightarrow> False
      | Primitive \<Rightarrow> False)"

text \<open>
  The page loop of \<^verbatim>\<open>scrape\<close>, from a given page with the listings gathered so far. An
  error of a fetch leaves the loop and the function, and so does a \<^verbatim>\<open>TypeError\<close>: of
  \<^verbatim>\<open>response.payload\<close> on a body that is \<^verbatim>\<open>null\<close>, of the spread of a \<^verbatim>\<open>resultados\<close> that is
  not iterable, and of the sample printed on page 1.
\<close>

function crawlPages ::
  "env \<Rightarrow> nat \<Rightarrow> nat \<Rightarrow> nat \<Rightarrow> item list \<Rightarrow> world \<Rightarrow> (error + item list) \<times> world" where
  "crawlPages e maxAttempts maxPages page allOpportunities w =
     (if page \<le> maxPages then
        (case fetchOpportunities e maxAttempts page w of
           (Inl err, w') \<Rightarrow> (Inl err, w')
         | (Inr None, w') \<Rightarrow> (Inl TypeError, w')
         | (Inr (Some response), w') \<Rightarrow>
             (case payload response of
                None \<Rightarrow> (Inr allOpportunities, w')
              | Some pl \<Rightarrow>
                  (case resultados pl of
                     NoResults \<Rightarrow> (Inr allOpportunities, w')
                   | NotIterable \<Rightarrow> (Inl TypeError, w')
                   | Items opportunities \<Rightarrow>
                       (case opportunities of
                          [] \<Rightarrow> (Inr allOpportunities, w')
                        | first # others \<Rightarrow>
                            if page = 1 \<and> \<not> samplePrints first then (Inl TypeError, w')
                            else if reachedPageCount page (pageCount pl)
                              then (Inr (allOpportunities @ opportunities), w')
                            else crawlPages e maxAttempts maxPages (page + 1)
                                   (allOpportunities @ opportunities)
                                   (w'\<lparr>events := events w' @ [Sleep 1000]\<rparr>)))))
      else (Inr allOpportunities, w))"
  by pat_completeness auto
termination
  by (relation "measure (\<lambda>(e, maxAttempts, maxPages, page, acc, w). Suc maxPages - page)") auto

declare crawlPages.simps [simp del]

section \<open>enricher.js\<close>

definition isDigit :: "char \<Rightarrow> bool" where
  "isDigit c = (c \<in> set ''0123456789'')"

text \<open>The ASCII characters of the class \<^verbatim>\<open>\s\<close>.\<close>

definition isSpace :: "char \<Rightarrow> bool" where
  "isSpace c = (c \<in> set [CHR '' '', CHR 0x09, CHR 0x0A, CHR 0x0B, CHR 0x0C, CHR 0x0D])"

text \<open>
  The optional time of the pattern, \<^verbatim>\<open>(?:\s+(\d{2}):(\d{2})(?::(\d{2}))?)?$\<close>, with the
  defaults of the destructuring.
\<close>

definition matchTime :: "string \<Rightarrow> (string \<times> string \<times> string) option" where
  "matchTime rest =
     (if rest = [] then Some (''00'', ''00'', ''00'')
      else
        (let r = dropWhile isSpace rest
         in if length r = length rest then None
            else
              (case r of
                 [h1, h2, c1, m1, m2] \<Rightarrow>
                   if list_all isDigit [h1, h2, m1, m2] \<and> c1 = CHR '':''
                   then Some ([h1, h2], [m1, m2], ''00'') else None
               | [h1, h2, c1, m1, m2, c2, s1, s2] \<Rightarrow>
                   if list_all isDigit [h1, h2, m1, m2, s1, s2] \<and> c1 = CHR '':'' \<and> c2 = CHR '':''
                   then Some ([h1, h2], [m1, m2], [s1, s2]) else None
               | _ \<Rightarrow> None)))"

text \<open>
  The match of \<^verbatim>\<open>^(\d{2})\/(\d{2})\/(\d{4})...\<close> and the string
  \<^verbatim>\<open>yyyy-mm-ddThh:min:ss\<close> built from it.
\<close>

definition normalizeDDMMYYYY :: "string \<Rightarrow> string option" where
  "normalizeDDMMYYYY v =
     (case v of
        d1 # d2 # a # m1 # m2 # b # y1 # y2 # y3 # y4 # rest \<Rightarrow>
          if list_all isDigit [d1, d2, m1, m2, y1, y2, y3, y4] \<and> a = CHR ''/'' \<and> b = CHR ''/''
          then
            (case matchTime rest of
               None \<Rightarrow> None
             | Some (hh, mi, ss) \<Rightarrow>
                 Some ([y1, y2, y3, y4] @ ''-'' @ [m1, m2] @ ''-'' @ [d1, d2] @ ''T'' @
                       hh @ '':'' @ mi @ '':'' @ ss))
          else None
      | _ \<Rightarrow> None)"

definition parseClosingDate :: "env \<Rightarrow> text_member \<Rightarrow> int option" where
  "parseClosingDate e v =
     (case v of
        Absent \<Rightarrow> None
      | NotText \<Rightarrow> None
      | Text t \<Rightarrow>
          if t = [] then None
          else
            (case dateParse e t of
               Some direct \<Rightarrow> Some direct
             | None \<Rightarrow>
                 (case normalizeDDMMYYYY t of
                    None \<Rightarrow> None
                  | Some normalized \<Rightarrow> dateParse e normalized)))"

definition shouldEnrich :: "env \<Rightarrow> opportunity \<Rightarrow> int \<Rightarrow> bool" where
  "shouldEnrich e opp now =
     (let hasNoOffers = (misOfertas opp = Some 0 \<and> numeroOfertas opp = Some 0)
      in if \<not> hasNoOffers then False
         else
           (case parseClosingDate e (fechaCierre opp) of
              None \<Rightarrow> False
            | Some closing \<Rightarrow>
                (let deltaMs = closing - now
                 in deltaMs \<ge> 0 \<and> deltaMs \<le> 72 * 60 * 60 * 1000)))"

definition requestDetail :: "env \<Rightarrow> string \<Rightarrow> nat \<Rightarrow> error + detalleSolicitud option" where
  "requestDetail e cod attempt =
     (case detailApi e cod attempt of
        Reply status body \<Rightarrow>
          if status = 200 then
            (case body of
               DetailUnparseable \<Rightarrow> Inl ParseError
             | DetailJson d \<Rightarrow> Inr d)
          else if status = 401 then Inl (TokenExpiredError Http401)
          else Inl (HttpError status)
      | TimedOut \<Rightarrow> Inl TimeoutError
      | ConnectionFailed \<Rightarrow> Inl ConnectionError)"

function requestDetailWithRetry ::
  "env \<Rightarrow> string \<Rightarrow> nat \<Rightarrow> nat \<Rightarrow> (error + detalleSolicitud option) \<times> event list" where
  "requestDetailWithRetry e cod maxRetries attempt =
     (if attempt \<le> maxRetries then
        (case requestDetail e cod attempt of
           Inr r \<Rightarrow> (Inr r, [DetailGet cod attempt])
         | Inl err \<Rightarrow>
             if isTokenExpiredError err then (Inl err, [DetailGet cod attempt])
             else if statusCode err = Some 400 \<or> statusCode err = Some 401
               then (Inl err, [DetailGet cod attempt])
             else if \<not> isRetryable err \<or> attempt = maxRetries
               then (Inl err, [DetailGet cod attempt])
             else
               (let delaySeconds = 2 ^ attempt;
                    rest = requestDetailWithRetry e cod maxRetries (attempt + 1)
                in (fst rest, DetailGet cod attempt # Sleep (delaySeconds * 1000) # snd rest)))
      else (Inl RetriesExhausted, []))"
  by pat_completeness auto
termination
  by (relation "measure (\<lambda>(e, cod, maxRetries, attempt). Suc maxRetries - attempt)") auto

declare requestDetailWithRetry.simps [simp del]

definition mapDetail :: "opportunity \<Rightarrow> detalleSolicitud \<Rightarrow> enriched" where
  "mapDetail opp detail =
     \<lparr> enriched_codigo = codigo opp,
       enriched_nombre = nombre opp,
       enriched_organismo = organismo opp,
       enriched_montoDisponible = montoDisponible opp,
       enriched_fechaCierre = fechaCierre opp,
       detalle = detail\<lparr>productos :=
                   Some (case productos detail of None \<Rightarrow> [] | Some ps \<Rightarrow> ps)\<rparr> \<rparr>"

text \<open>
  \<^verbatim>\<open>enrichSingle\<close>: the \<^verbatim>\<open>catch\<close> of the source has no condition, so every error of the
  request, whatever its class, becomes \<^verbatim>\<open>null\<close>.
\<close>

definition enrichSingle :: "env \<Rightarrow> opportunity \<Rightarrow> nat \<Rightarrow> enriched option \<times> event list" where
  "enrichSingle e opp maxRetries =
     (case requestDetailWithRetry e (codigo opp) maxRetries 0 of
        (Inl err, evs) \<Rightarrow> (None, evs)
      | (Inr None, evs) \<Rightarrow> (None, evs)
      | (Inr (Some detail), evs) \<Rightarrow> (Some (mapDetail opp detail), evs))"

record enrich_options =
  opt_concurrency :: "int option"
  opt_timeoutMs :: "int option"
  opt_maxRetries :: "int option"

text \<open>
  The loop over the windows of \<^verbatim>\<open>enrichOpportunities\<close>. The tasks of a window are run
  here in the order of the input, which is the order in which \<^verbatim>\<open>Promise.allSettled\<close>
  gives their results; how their requests interleave in time is not modelled. The caller
  passes a positive \<open>concurrency\<close>; with 0 the source would not leave the loop.
\<close>

function enrichWindows ::
  "env \<Rightarrow> opportunity list \<Rightarrow> nat \<Rightarrow> nat \<Rightarrow> nat \<Rightarrow> enriched list \<Rightarrow> world \<Rightarrow> enriched list \<times> world" where
  "enrichWindows e filtered concurrency maxRetries start acc w =
     (if start < length filtered \<and> 0 < concurrency then
        (let batch = take concurrency (drop start filtered);
             settled = map (\<lambda>opp. enrichSingle e opp maxRetries) batch;
             acc' = acc @ List.map_filter fst settled;
             w' = w\<lparr>events := events w @ concat (map snd settled)\<rparr>
         in enrichWindows e filtered concurrency maxRetries (start + concurrency) acc' w')
      else (acc, w))"
  by pat_completeness auto
termination
  by (relation "measure (\<lambda>(e, filtered, concurrency, maxRetries, start, acc, w).
        length filtered - start)") auto

declare enrichWindows.simps [simp del]

definition enrichOpportunities ::
  "env \<Rightarrow> opportunity list \<Rightarrow> enrich_options \<Rightarrow> world \<Rightarrow> (error + enriched list) \<times> world" where
  "enrichOpportunities e opportunities options w =
     (if opportunities = [] then (Inr [], w)
      else
        (let concurrency =
               (case opt_concurrency options of
                  None \<Rightarrow> 5
                | Some c \<Rightarrow> if c > 0 then nat c else 5);
             maxRetries =
               (case opt_maxRetries options of
                  None \<Rightarrow> 3
                | Some r \<Rightarrow> if r \<ge> 0 then nat r else 3);
             filtered = filter (\<lambda>opp. shouldEnrich e opp (nowMs e)) opportunities
         in if filtered = [] then (Inr [], w)
            else
              (case getValidToken e w of
                 (Inl err, w') \<Rightarrow> (Inl err, w')
               | (Inr bearerToken, w') \<Rightarrow>
                   (let r = enrichWindows e filtered concurrency maxRetries 0 [] w'
                    in (Inr (fst r), snd r)))))"

text \<open>
  What \<^verbatim>\<open>scrape\<close> does with the listings after the page loop. The summary reads
  \<^verbatim>\<open>opp.codigo\<close> and \<^verbatim>\<open>opp.fechaCierre?.substring\<close> of every element; the list printed at
  the end calls \<^verbatim>\<open>nombre.substring\<close> on the first ten entries of the summary. Either
  raises a \<^verbatim>\<open>TypeError\<close> on an element it cannot read.
\<close>

definition summaryBuilds :: "item \<Rightarrow> bool" where
  "summaryBuilds it =
     (case it of
        Item opp \<Rightarrow> fechaCierre opp \<noteq> NotText
      | NullItem \<Rightarrow> False
      | Primitive \<Rightarrow> True)"

definition topPrints :: "item \<Rightarrow> bool" where
  "topPrints it =
     (case it of
        Item opp \<Rightarrow> nombre opp \<noteq> None
      | NullItem \<Rightarrow> False
      | Primitive \<Rightarrow> False)"

text \<open>
  The elements \<^verbatim>\<open>shouldEnrich\<close> looks at: its first test turns down whatever is not an
  object.
\<close>

definition listings :: "item list \<Rightarrow> opportunity list" where
  "listings its = List.map_filter (\<lambda>it. case it of Item opp \<Rightarrow> Some opp | _ \<Rightarrow> None) its"

text \<open>
  \<^verbatim>\<open>scrape\<close>: the token, the page loop, the summary, the enrichment when it is asked for,
  and the list of the first ten. The writing of the result files is left out; it returns
  the listings of the page loop. Every step reads the clock as it stands after the
  events before it.
\<close>

definition scrape ::
  "env \<Rightarrow> nat \<Rightarrow> nat \<Rightarrow> bool \<Rightarrow> world \<Rightarrow> (error + item list) \<times> world" where
  "scrape e maxAttempts maxPages enrich w =
     (case getValidToken (clockAt e w) w of
        (Inl err, w') \<Rightarrow> (Inl err, w')
      | (Inr bearerToken, w') \<Rightarrow>
          (case crawlPages e maxAttempts maxPages 1 [] w' of
             (Inl err, w'') \<Rightarrow> (Inl err, w'')
           | (Inr allOpportunities, w'') \<Rightarrow>
               if \<not> list_all summaryBuilds allOpportunities then (Inl TypeError, w'')
               else
                 (case (if enrich
                        then enrichOpportunities (clockAt e w'') (listings allOpportunities)
                               \<lparr>opt_concurrency = None, opt_timeoutMs = None,
                                 opt_maxRetries = None\<rparr> w''
                        else (Inr [], w'')) of
                    (Inl err, w3) \<Rightarrow> (Inl err, w3)
                  | (Inr enrichedList, w3) \<Rightarrow>
                      if \<not> list_all topPrints (take 10 allOpportunities)
                      then (Inl TypeError, w3)
                      else (Inr allOpportunities, w3))))"

section \<open>session-monitor.js\<close>

datatype level = OK | WARN | CRITICAL

datatype verdict_reason =
    NoParseableExpiry
  | Expired
  | ExpiringVerySoon number
  | ExpiringSoon number
  | Healthy number
  | ProbeFailed
  | SessionFileMissing
  | SessionFileInvalid

record outcome =
  level :: level
  code :: nat
  reason :: verdict_reason

text \<open>
  The thresholds \<^verbatim>\<open>WARN_HOURS\<close> and \<^verbatim>\<open>CRIT_HOURS\<close> (from the environment, 24 and 6 when
  unset) and the flag \<^verbatim>\<open>--probe\<close>.
\<close>

record monitor_config =
  WARN_HOURS :: number
  CRIT_HOURS :: number
  DO_PROBE :: bool

definition defaultConfig :: "bool \<Rightarrow> monitor_config" where
  "defaultConfig probe = \<lparr> WARN_HOURS = 24, CRIT_HOURS = 6, DO_PROBE = probe \<rparr>"

definition classify :: "monitor_config \<Rightarrow> number option list \<Rightarrow> outcome" where
  "classify cfg hoursLeftList =
     (case List.map_filter (\<lambda>h. h) hoursLeftList of
        [] \<Rightarrow> \<lparr> level = WARN, code = 1, reason = NoParseableExpiry \<rparr>
      | h # hs \<Rightarrow>
          (let minHours = fold min hs h
           in if minHours \<le> 0 then \<lparr> level = CRITICAL, code = 2, reason = Expired \<rparr>
              else if minHours \<le> CRIT_HOURS cfg
                then \<lparr> level = CRITICAL, code = 2, reason = ExpiringVerySoon minHours \<rparr>
              else if minHours \<le> WARN_HOURS cfg
                then \<lparr> level = WARN, code = 1, reason = ExpiringSoon minHours \<rparr>
              else \<lparr> level = OK, code = 0, reason = Healthy minHours \<rparr>))"

text \<open>\<^verbatim>\<open>probeApi\<close>: the probe is fine only when a token was sent and the status is 200.\<close>

definition probeApi :: "env \<Rightarrow> string \<Rightarrow> bool" where
  "probeApi e bearerToken =
     (if bearerToken = [] then False
      else (case probeReply e bearerToken of Reply status body \<Rightarrow> status = 200 | _ \<Rightarrow> False))"

text \<open>
  The three signals of \<^verbatim>\<open>main\<close>, in hours; the clock is not rounded here. The first is
  taken from the state of the access token that \<^verbatim>\<open>inspectToken\<close> returned; the second
  from the payload of the identity cookie, read with the monitor's own test,
  \<^verbatim>\<open>payload?.exp && Number(payload.exp) > 0\<close>; the third from the \<^verbatim>\<open>expires\<close> of the
  session cookie.
\<close>

definition nowSeconds :: "env \<Rightarrow> number" where
  "nowSeconds e = of_int (nowMs e) / 1000"

definition hAccess :: "token_state \<Rightarrow> number option" where
  "hAccess accessState = map_option (\<lambda>s. s / 3600) (state_secondsRemaining accessState)"

definition hIdentity :: "env \<Rightarrow> cookie list \<Rightarrow> number option" where
  "hIdentity e cookies =
     (case find (\<lambda>c. cookie_name c = ''KEYCLOAK_IDENTITY'') cookies of
        None \<Rightarrow> None
      | Some c \<Rightarrow>
          if cookie_value c = [] then None
          else
            (case jwtPayloadExpNumber e (cookie_value c) of
               None \<Rightarrow> None
             | Some x \<Rightarrow> if x > 0 then Some ((x - nowSeconds e) / 3600) else None))"

definition hSession :: "env \<Rightarrow> cookie list \<Rightarrow> number option" where
  "hSession e cookies =
     (case find (\<lambda>c. cookie_name c = ''KEYCLOAK_SESSION'') cookies of
        None \<Rightarrow> None
      | Some c \<Rightarrow>
          (case expires c of
             None \<Rightarrow> None
           | Some x \<Rightarrow>
               (let sessionExp = \<lfloor>x\<rfloor>
                in if sessionExp > 0 then Some ((of_int sessionExp - nowSeconds e) / 3600)
                   else None)))"

text \<open>
  \<^verbatim>\<open>main\<close>: the outcome whose \<open>code\<close> is the exit code of the process, or the error that
  is raised before there is one. Nothing catches it: \<^verbatim>\<open>session.cookies\<close> on a document
  that is \<^verbatim>\<open>null\<close>, and whatever \<^verbatim>\<open>inspectToken\<close> raises, end the process with the exit
  code 1 of an error that was not handled.
\<close>

definition main :: "env \<Rightarrow> monitor_config \<Rightarrow> session_file \<Rightarrow> error + outcome" where
  "main e cfg f =
     (case f of
        Unreadable \<Rightarrow> Inr \<lparr> level = CRITICAL, code = 2, reason = SessionFileMissing \<rparr>
      | Malformed \<Rightarrow> Inr \<lparr> level = CRITICAL, code = 2, reason = SessionFileInvalid \<rparr>
      | NullDocument \<Rightarrow> Inl TypeError
      | Session cookies \<Rightarrow>
          (case inspectToken e f of
             Inl err \<Rightarrow> Inl err
           | Inr (accessState, refreshState) \<Rightarrow>
               (let outcome0 =
                      classify cfg [hAccess accessState, hIdentity e cookies, hSession e cookies];
                    accessCookie =
                      find (\<lambda>c. cookie_name c = ''access_token_ccr'' \<or>
                                cookie_name c = ''access_token'') cookies
                in if DO_PROBE cfg then
                     (if \<not> probeApi e
                             (case accessCookie of None \<Rightarrow> [] | Some c \<Rightarrow> cookie_value c)
                      then Inr \<lparr> level = CRITICAL, code = 2, reason = ProbeFailed \<rparr>
                      else Inr outcome0)
                   else Inr outcome0)))"

definition processExitCode :: "error + outcome \<Rightarrow> nat" where
  "processExitCode r = (case r of Inl err \<Rightarrow> 1 | Inr out \<Rightarrow> code out)"

section \<open>The words of the specification\<close>

text \<open>
  The definitions of this section are not code of the repository: they write down notions
  the specification uses, so that the code can be compared with them.
\<close>

text \<open>
  A retryable failure, as the specification lists them: a 5xx status, a timeout, a
  connection error.
\<close>

definition spec_retryable_failure :: "'b http_reply \<Rightarrow> bool" where
  "spec_retryable_failure r =
     (case r of
        Reply status body \<Rightarrow> 500 \<le> status \<and> status < 600
      | TimedOut \<Rightarrow> True
      | ConnectionFailed \<Rightarrow> True)"

text \<open>
  The conditions under which the specification lets a crawl end early at a page: the
  response lacks the expected payload shape, the page has no items, or the page number
  has reached the page count the server reports.
\<close>

definition spec_ends_crawl :: "nat \<Rightarrow> search_response \<Rightarrow> bool" where
  "spec_ends_crawl page r =
     (case payload r of
        None \<Rightarrow> True
      | Some pl \<Rightarrow>
          (case resultados pl of
             Items its \<Rightarrow>
               its = [] \<or>
               (case pageCount pl of None \<Rightarrow> False | Some reported \<Rightarrow> reported \<le> of_nat page)
           | _ \<Rightarrow> True))"

text \<open>The items of a page, none when the response lacks the shape.\<close>

definition spec_page_items :: "search_response \<Rightarrow> item list" where
  "spec_page_items r =
     (case payload r of
        None \<Rightarrow> []
      | Some pl \<Rightarrow> (case resultados pl of Items its \<Rightarrow> its | _ \<Rightarrow> []))"

text \<open>
  The page requests among the events of a run, in order: every call of
  \<^verbatim>\<open>fetchOpportunities\<close> that reaches the network sends its first attempt once.
\<close>

fun spec_page_requests :: "event list \<Rightarrow> nat list" where
  "spec_page_requests [] = []"
| "spec_page_requests (HttpGet page attempt # evs) =
     (if attempt = 1 then page # spec_page_requests evs else spec_page_requests evs)"
| "spec_page_requests (ev # evs) = spec_page_requests evs"

text \<open>
  The events of a crawl of the pages \<open>j, ..., k\<close> whose fetches succeed: the requests of
  each page, and the sleep of one second between two pages.
\<close>

definition crawlTrace :: "env \<Rightarrow> nat \<Rightarrow> nat \<Rightarrow> nat \<Rightarrow> event list" where
  "crawlTrace e maxAttempts j k =
     concat (map (\<lambda>p. snd (fetchAttempts e maxAttempts p 1) @ [Sleep 1000]) [j..<k])
       @ snd (fetchAttempts e maxAttempts k 1)"

text \<open>
  The verdict in the words of the specification, from the minimum of the parseable
  signals.
\<close>

definition spec_verdict :: "monitor_config \<Rightarrow> number option list \<Rightarrow> level" where
  "spec_verdict cfg signals =
     (let known = List.map_filter (\<lambda>h. h) signals
      in if known = [] then WARN
         else if Min (set known) \<le> 0 \<or> Min (set known) \<le> CRIT_HOURS cfg then CRITICAL
         else if Min (set known) \<le> WARN_HOURS cfg then WARN
         else OK)"

definition exitCode :: "level \<Rightarrow> nat" where
  "exitCode l = (case l of OK \<Rightarrow> 0 | WARN \<Rightarrow> 1 | CRITICAL \<Rightarrow> 2)"

section \<open>Sample data\<close>

text \<open>
  A bundle, listings and endpoints on which the functions above are run further down. The
  clock stands at 1000 s. The token \<open>fresh.jwt\<close> expires at 2000 s, \<open>stale.jwt\<close> at
  1100 s, \<open>short.jwt\<close> at 1060 s, \<open>edge.jwt\<close> at 1301 s and \<open>long.jwt\<close> 48 hours from
  now; \<open>text.jwt\<close> has the \<^verbatim>\<open>exp\<close> of \<open>long.jwt\<close> written as a string. A request takes 250 ms
  and timers fire on time.
\<close>

definition mkCookie :: "string \<Rightarrow> string \<Rightarrow> number option \<Rightarrow> cookie" where
  "mkCookie nm v ex =
     \<lparr> cookie_name = nm, cookie_value = v, expires = ex,
       cookie_domain = ''.mercadopublico.cl'', cookie_path = ''/'',
       httpOnly = Some True, secure = Some True, sameSite = ''Lax'' \<rparr>"

definition sampleOpp :: "string \<Rightarrow> string \<Rightarrow> number option \<Rightarrow> opportunity" where
  "sampleOpp cod cierre own =
     \<lparr> codigo = cod, nombre = Some ''Compra'', organismo = ''Municipalidad'',
       montoDisponible = Some 100000, fechaCierre = Text cierre,
       misOfertas = own, numeroOfertas = Some 0 \<rparr>"

definition sampleDetail :: detalleSolicitud where
  "sampleDetail =
     \<lparr> descripcion = ''Sillas'', moneda = ''CLP'', montoMoneda = Some 100000,
       montoTotalEstimado = Some 100000, plazoEntrega = Some 5, direccion = ''Santiago'',
       productos = None, institucion_empresa = ''Municipalidad'',
       institucion_organizacion = ''Adquisiciones'', institucion_rut = ''1-9'' \<rparr>"

definition samplePage :: "nat \<Rightarrow> opportunity list" where
  "samplePage page =
     (if page = 1 then [sampleOpp ''B'' ''15/03/2026 10:00'' (Some 0),
                        sampleOpp ''A'' ''15/03/2026 10:00'' (Some 0)]
      else if page = 2 then [sampleOpp ''C'' ''2026-03-16T16:00:00'' (Some 0)]
      else [sampleOpp ''B'' ''15/03/2026 10:00'' (Some 0)])"

definition sampleEnv :: env where
  "sampleEnv =
     \<lparr> nowMs = 1000000,
       jwtPayloadExp =
         (\<lambda>t. if t = ''fresh.jwt'' then Some 2000
              else if t = ''stale.jwt'' then Some 1100
              else if t = ''short.jwt'' then Some 1060
              else if t = ''edge.jwt'' then Some 1301
              else if t = ''long.jwt'' then Some 173800
              else None),
       jwtPayloadExpNumber =
         (\<lambda>t. if t = ''fresh.jwt'' then Some 2000
              else if t = ''stale.jwt'' then Some 1100
              else if t = ''short.jwt'' then Some 1060
              else if t = ''edge.jwt'' then Some 1301
              else if t = ''long.jwt'' then Some 173800
              else if t = ''text.jwt'' then Some 173800
              else None),
       waitMs = (\<lambda>ev. case ev of Sleep ms \<Rightarrow> 0 | SessionWrite \<Rightarrow> 0 | _ \<Rightarrow> 250),
       dateParse =
         (\<lambda>s. if s = ''2026-03-15T10:00:00'' then Some 181000000
              else if s = ''2026-03-16T16:00:00'' then Some 289000000
              else if s = ''2026-03-13T07:00:00'' then Some (- 2600000)
              else if s = ''2026-03-13T18:00:00'' then Some 37000000
              else None),
       tokenEndpoint =
         (\<lambda>rt. if rt = ''refresh-good''
                then RefreshResponse 200
                       (BodyObject \<lparr> access_token = ''short.jwt'', refresh_token = [],
                                     expires_in = Some 60, refresh_expires_in = None \<rparr>)
              else if rt = ''refresh-revoked'' then RefreshResponse 400 BodyUnparseable
              else RefreshFailure),
       searchApi =
         (\<lambda>page attempt.
            if page = 7 then Reply 503 SearchUnparseable
            else if page = 8 then Reply 401 SearchUnparseable
            else Reply 200
                   (SearchJson \<lparr> payload =
                      Some \<lparr> resultados = Items (map Item (samplePage page)),
                             pageCount = Some 3 \<rparr> \<rparr>)),
       detailApi =
         (\<lambda>cod attempt.
            if cod = ''A'' then Reply 401 DetailUnparseable
            else if cod = ''D'' then
              (if attempt = 0 then Reply 503 DetailUnparseable else Reply 401 DetailUnparseable)
            else Reply 200 (DetailJson (Some sampleDetail))),
       probeReply = (\<lambda>t. Reply 401 ()) \<rparr>"

definition freshWorld :: world where
  "freshWorld =
     \<lparr> session = Session [mkCookie ''access_token'' ''fresh.jwt'' (Some (4001 / 2)),
                           mkCookie ''refresh_token'' ''refresh-good'' None],
       events = [] \<rparr>"

definition staleWorld :: world where
  "staleWorld =
     \<lparr> session = Session [mkCookie ''access_token_ccr'' ''stale.jwt'' (Some 1100),
                           mkCookie ''refresh_token'' ''refresh-good'' None],
       events = [] \<rparr>"

definition noRefreshWorld :: world where
  "noRefreshWorld =
     \<lparr> session = Session [mkCookie ''access_token_ccr'' ''stale.jwt'' (Some 1100)],
       events = [] \<rparr>"

definition revokedWorld :: world where
  "revokedWorld =
     \<lparr> session = Session [mkCookie ''access_token_ccr'' ''stale.jwt'' (Some 1100),
                           mkCookie ''refresh_token'' ''refresh-revoked'' None],
       events = [] \<rparr>"

definition healthyWorld :: world where
  "healthyWorld =
     \<lparr> session = Session [mkCookie ''access_token'' ''long.jwt'' None],
       events = [] \<rparr>"

text \<open>A bundle whose token has 301 seconds left, one more than the minimum.\<close>

definition edgeWorld :: world where
  "edgeWorld =
     \<lparr> session = Session [mkCookie ''access_token'' ''edge.jwt'' None,
                           mkCookie ''refresh_token'' ''refresh-good'' None],
       events = [] \<rparr>"


text \<open>A bundle whose identity cookie carries its \<^verbatim>\<open>exp\<close> as a string.\<close>

definition identityWorld :: world where
  "identityWorld =
     \<lparr> session = Session [mkCookie ''KEYCLOAK_IDENTITY'' ''text.jwt'' None],
       events = [] \<rparr>"

text \<open>The search endpoint answering every page with status 200 and the body \<^verbatim>\<open>null\<close>.\<close>

definition nullBodyEnv :: env where
  "nullBodyEnv = sampleEnv\<lparr>searchApi := (\<lambda>page attempt. Reply 200 SearchNull)\<rparr>"

text \<open>
  The search endpoint answering every page with one listing whose \<^verbatim>\<open>nombre\<close> is missing,
  and with one whose \<^verbatim>\<open>resultados\<close> is an object.
\<close>

definition namelessEnv :: env where
  "namelessEnv =
     sampleEnv\<lparr>searchApi :=
       (\<lambda>page attempt.
          Reply 200
            (SearchJson \<lparr> payload =
               Some \<lparr> resultados =
                        Items [Item ((sampleOpp ''N'' ''15/03/2026 10:00'' (Some 0))
                                       \<lparr>nombre := None\<rparr>)],
                      pageCount = Some 3 \<rparr> \<rparr>))\<rparr>"

definition objectResultsEnv :: env where
  "objectResultsEnv =
     sampleEnv\<lparr>searchApi :=
       (\<lambda>page attempt.
          Reply 200
            (SearchJson \<lparr> payload =
               Some \<lparr> resultados = NotIterable, pageCount = Some 3 \<rparr> \<rparr>))\<rparr>"

section \<open>Properties of the token manager\<close>

lemma inspect_state:
  "findAccessCookie cookies = Some c \<Longrightarrow>
   inspectAccessToken e (Session cookies) =
     tokenStateFields e (Some (cookie_name c)) (cookie_value c) (expires c)"
  by (simp add: inspectAccessToken_def readSessionFileSafe_def readSessionFileOrThrow_def)

lemma inspect_state_none:
  "findAccessCookie cookies = None \<Longrightarrow>
   inspectAccessToken e (Session cookies) = tokenStateFields e None [] None"
  by (simp add: inspectAccessToken_def readSessionFileSafe_def readSessionFileOrThrow_def)

text \<open>The test of the fast path, read off the state that \<^verbatim>\<open>inspectToken\<close> reports.\<close>

lemma fresh_iff:
  "(present (inspectAccessToken e (Session cookies)) \<and>
    exceedsMinValidity (state_secondsRemaining (inspectAccessToken e (Session cookies))))
   = (\<exists>c. findAccessCookie cookies = Some c \<and> cookie_value c \<noteq> [] \<and>
        exceedsMinValidity (secondsRemaining e
          (jsOr (decodeJwtExp e (cookie_value c)) (normalizeEpochSeconds (expires c)))))"
proof (cases "findAccessCookie cookies")
  case None
  then show ?thesis
    by (simp add: inspect_state_none tokenStateFields_def Let_def)
next
  case (Some c)
  then show ?thesis
    by (simp add: inspect_state tokenStateFields_def Let_def)
qed

lemma getValidToken_fresh:
  assumes "session w = Session cookies"
    and "findAccessCookie cookies = Some c"
    and "cookie_value c \<noteq> []"
    and "exceedsMinValidity (secondsRemaining e
           (jsOr (decodeJwtExp e (cookie_value c)) (normalizeEpochSeconds (expires c))))"
  shows "getValidToken e w = (Inr (cookie_value c), w)"
  using assms by (simp add: getValidToken_def readSessionFileOrThrow_def Let_def)

lemma getValidToken_not_fresh:
  assumes "session w = Session cookies"
    and "\<not> (present (inspectAccessToken e (Session cookies)) \<and>
            exceedsMinValidity (state_secondsRemaining (inspectAccessToken e (Session cookies))))"
  shows "getValidToken e w =
     (case findCookie cookies [''refresh_token''] of
        None \<Rightarrow> (Inl (TokenExpiredError NoRefreshToken), w)
      | Some rc \<Rightarrow>
          if cookie_value rc = [] then (Inl (TokenExpiredError NoRefreshToken), w)
          else
            (case requestTokenRefresh e (cookie_value rc) w of
               (Inl err, w') \<Rightarrow> (Inl err, w')
             | (Inr refreshed, w') \<Rightarrow>
                 (Inr (access_token refreshed), persistRefreshedTokens e cookies refreshed rc w')))"
proof (cases "findAccessCookie cookies")
  case None
  then show ?thesis using assms(1)
    by (simp add: getValidToken_def readSessionFileOrThrow_def Let_def)
next
  case (Some c)
  with assms(2) have "\<not> (cookie_value c \<noteq> [] \<and>
        exceedsMinValidity (secondsRemaining e
          (jsOr (decodeJwtExp e (cookie_value c)) (normalizeEpochSeconds (expires c)))))"
    by (simp add: fresh_iff)
  with Some assms(1) show ?thesis
    by (auto simp add: getValidToken_def readSessionFileOrThrow_def Let_def)
qed

lemma requestTokenRefresh_events:
  "events (snd (requestTokenRefresh e rt w)) = events w @ [RefreshPost rt]"
  by (simp add: requestTokenRefresh_def Let_def split: refresh_reply.splits refresh_body.splits)

lemma requestTokenRefresh_session:
  "session (snd (requestTokenRefresh e rt w)) = session w"
  by (simp add: requestTokenRefresh_def Let_def split: refresh_reply.splits refresh_body.splits)

lemma requestTokenRefresh_world:
  "snd (requestTokenRefresh e rt w) = w\<lparr>events := events w @ [RefreshPost rt]\<rparr>"
  by (simp add: requestTokenRefresh_def Let_def split: refresh_reply.splits refresh_body.splits)

lemma requestTokenRefresh_Inr:
  "fst (requestTokenRefresh e rt w) = Inr parsed \<longleftrightarrow>
     (tokenEndpoint e rt = RefreshResponse 200 (BodyObject parsed) \<and> access_token parsed \<noteq> [])"
  by (auto simp add: requestTokenRefresh_def Let_def split: refresh_reply.splits refresh_body.splits)

lemma requestTokenRefresh_Inl:
  "fst (requestTokenRefresh e rt w) = Inl err \<Longrightarrow> \<exists>r. err = TokenRefreshError r"
  by (auto simp add: requestTokenRefresh_def Let_def split: refresh_reply.splits refresh_body.splits if_splits)


text \<open>
  Claim C2. When the bundle holds a current access token (a record found under one of the
  two names, with a value) whose expiry is known and lies more than 300 seconds ahead,
  \<^verbatim>\<open>getValidToken\<close> returns the value of that record and leaves the world as it was: no
  refresh request is among the events and the stored bundle is the same.
\<close>

theorem fresh_token_returned_without_refresh:
  assumes "session w = Session cookies"
    and "findAccessCookie cookies = Some c"
    and "cookie_value c \<noteq> []"
    and "state_secondsRemaining (inspectAccessToken e (session w)) = Some r"
    and "r > 300"
  shows "getValidToken e w = (Inr (cookie_value c), w) \<and>
         events (snd (getValidToken e w)) = events w \<and>
         session (snd (getValidToken e w)) = session w"
proof -
  have "state_secondsRemaining
          (tokenStateFields e (Some (cookie_name c)) (cookie_value c) (expires c)) = Some r"
    using assms(1,2,4) by (simp add: inspect_state)
  then have "secondsRemaining e
           (jsOr (decodeJwtExp e (cookie_value c)) (normalizeEpochSeconds (expires c))) = Some r"
    by (simp add: tokenStateFields_def Let_def)
  then have "exceedsMinValidity (secondsRemaining e
           (jsOr (decodeJwtExp e (cookie_value c)) (normalizeEpochSeconds (expires c))))"
    using assms(5) by (simp add: exceedsMinValidity_def ACCESS_MIN_VALIDITY_SECONDS_def)
  then have "getValidToken e w = (Inr (cookie_value c), w)"
    by (rule getValidToken_fresh[OF assms(1) assms(2) assms(3)])
  then show ?thesis by simp
qed

lemma sample_fresh_cookie:
  "findAccessCookie [mkCookie ''access_token'' ''fresh.jwt'' (Some (4001 / 2)),
                     mkCookie ''refresh_token'' ''refresh-good'' None]
   = Some (mkCookie ''access_token'' ''fresh.jwt'' (Some (4001 / 2)))"
  by (simp add: findAccessCookie_def mkCookie_def)

lemma sample_fresh_remaining:
  "state_secondsRemaining (inspectAccessToken sampleEnv (session freshWorld)) = Some 1000"
  by code_simp

text \<open>
  The theorem at the sample bundle whose token has 1000 seconds left.
\<close>

theorem fresh_token_returned_without_refresh_witness:
  "session freshWorld =
     Session [mkCookie ''access_token'' ''fresh.jwt'' (Some (4001 / 2)),
              mkCookie ''refresh_token'' ''refresh-good'' None] \<and>
   state_secondsRemaining (inspectAccessToken sampleEnv (session freshWorld)) = Some 1000 \<and>
   getValidToken sampleEnv freshWorld = (Inr ''fresh.jwt'', freshWorld)"
proof -
  have s: "session freshWorld =
     Session [mkCookie ''access_token'' ''fresh.jwt'' (Some (4001 / 2)),
              mkCookie ''refresh_token'' ''refresh-good'' None]"
    by (simp add: freshWorld_def)
  have v: "cookie_value (mkCookie ''access_token'' ''fresh.jwt'' (Some (4001 / 2))) \<noteq> []"
    by (simp add: mkCookie_def)
  have "(1000::rat) > 300" by simp
  from fresh_token_returned_without_refresh[OF s sample_fresh_cookie v sample_fresh_remaining this]
  have "getValidToken sampleEnv freshWorld = (Inr ''fresh.jwt'', freshWorld)"
    by (simp add: mkCookie_def)
  with s sample_fresh_remaining show ?thesis by simp
qed

text \<open>
  Claim C3 fails on the refresh path. The sample bundle holds a token with 100 seconds
  left and a refresh token; the endpoint answers the grant with a token that expires 60
  seconds from now. \<^verbatim>\<open>getValidToken\<close> returns that token after one refresh request, and
  its remaining validity, also as \<^verbatim>\<open>inspectToken\<close> reports it from the bundle just
  written, is 60 seconds, below the minimum of 300.
\<close>

theorem refreshed_token_validity_counterexample:
  "fst (getValidToken sampleEnv staleWorld) = Inr ''short.jwt'' \<and>
   events (snd (getValidToken sampleEnv staleWorld)) = [RefreshPost ''refresh-good'', SessionWrite] \<and>
   secondsRemaining sampleEnv (decodeJwtExp sampleEnv ''short.jwt'') = Some 60 \<and>
   state_secondsRemaining
     (inspectAccessToken sampleEnv (session (snd (getValidToken sampleEnv staleWorld)))) = Some 60 \<and>
   \<not> (60 \<ge> ACCESS_MIN_VALIDITY_SECONDS)"
  by code_simp


text \<open>
  Claim C3 as amended. A token that \<^verbatim>\<open>getValidToken\<close> returns is either the stored
  access token, returned without any effect and with more than 300 seconds of remaining
  validity, or the \<^verbatim>\<open>access_token\<close> member of the reply to the one refresh request,
  returned as the endpoint sent it (not empty; its remaining validity is not looked at)
  after the bundle was written.
\<close>

theorem returned_token_fresh_or_as_refreshed:
  assumes "session w = Session cookies"
    and "getValidToken e w = (Inr tok, w')"
  shows "(w' = w \<and>
          (\<exists>c r. findAccessCookie cookies = Some c \<and> tok = cookie_value c \<and>
                 state_secondsRemaining (inspectAccessToken e (session w)) = Some r \<and> r > 300))
       \<or> (\<exists>rc parsed. findCookie cookies [''refresh_token''] = Some rc \<and>
             tokenEndpoint e (cookie_value rc) = RefreshResponse 200 (BodyObject parsed) \<and>
             tok = access_token parsed \<and> tok \<noteq> [] \<and>
             events w' = events w @ [RefreshPost (cookie_value rc), SessionWrite])"
proof (cases "present (inspectAccessToken e (Session cookies)) \<and>
    exceedsMinValidity (state_secondsRemaining (inspectAccessToken e (Session cookies)))")
  case True
  then obtain c where c: "findAccessCookie cookies = Some c" "cookie_value c \<noteq> []"
    "exceedsMinValidity (secondsRemaining e
          (jsOr (decodeJwtExp e (cookie_value c)) (normalizeEpochSeconds (expires c))))"
    unfolding fresh_iff by blast
  from getValidToken_fresh[OF assms(1) c] assms(2)
  have same: "tok = cookie_value c" "w' = w" by simp_all
  from c(3) obtain r where r: "secondsRemaining e
          (jsOr (decodeJwtExp e (cookie_value c)) (normalizeEpochSeconds (expires c))) = Some r"
      "r > 300"
    by (auto simp add: exceedsMinValidity_def ACCESS_MIN_VALIDITY_SECONDS_def split: option.splits)
  have "state_secondsRemaining (inspectAccessToken e (session w)) = Some r"
    using assms(1) c(1) r(1) by (simp add: inspect_state tokenStateFields_def Let_def)
  with same c(1) r(2) show ?thesis by blast
next
  case False
  note nf = getValidToken_not_fresh[OF assms(1) False]
  show ?thesis
  proof (cases "findCookie cookies [''refresh_token'']")
    case None
    with nf assms(2) show ?thesis by simp
  next
    case (Some rc)
    show ?thesis
    proof (cases "cookie_value rc = []")
      case True
      with nf Some assms(2) show ?thesis by simp
    next
      case ne: False
      obtain res w1 where req: "requestTokenRefresh e (cookie_value rc) w = (res, w1)"
        by (cases "requestTokenRefresh e (cookie_value rc) w")
      show ?thesis
      proof (cases res)
        case (Inl err)
        with nf Some ne req assms(2) show ?thesis by simp
      next
        case (Inr parsed)
        with nf Some ne req assms(2)
        have tok: "tok = access_token parsed"
          and w': "w' = persistRefreshedTokens e cookies parsed rc w1"
          by simp_all
        from req Inr have "fst (requestTokenRefresh e (cookie_value rc) w) = Inr parsed" by simp
        then have ep: "tokenEndpoint e (cookie_value rc) = RefreshResponse 200 (BodyObject parsed)"
          and ne_tok: "access_token parsed \<noteq> []"
          by (simp_all add: requestTokenRefresh_Inr)
        from req have "events w1 = events w @ [RefreshPost (cookie_value rc)]"
          using requestTokenRefresh_events[of e "cookie_value rc" w] by simp
        then have "events w' = events w @ [RefreshPost (cookie_value rc), SessionWrite]"
          using w' by (simp add: persistRefreshedTokens_def Let_def)
        with Some ep tok ne_tok show ?thesis by blast
      qed
    qed
  qed
qed

text \<open>
  The theorem at the sample bundle that needs a refresh.
\<close>

theorem returned_token_fresh_or_as_refreshed_witness:
  "session staleWorld =
     Session [mkCookie ''access_token_ccr'' ''stale.jwt'' (Some 1100),
              mkCookie ''refresh_token'' ''refresh-good'' None] \<and>
   getValidToken sampleEnv staleWorld =
     (Inr ''short.jwt'', snd (getValidToken sampleEnv staleWorld)) \<and>
   events (snd (getValidToken sampleEnv staleWorld)) =
     events staleWorld @ [RefreshPost ''refresh-good'', SessionWrite]"
proof -
  have s: "session staleWorld =
     Session [mkCookie ''access_token_ccr'' ''stale.jwt'' (Some 1100),
              mkCookie ''refresh_token'' ''refresh-good'' None]"
    by (simp add: staleWorld_def)
  have f: "fst (getValidToken sampleEnv staleWorld) = Inr ''short.jwt''"
    by code_simp
  then have g: "getValidToken sampleEnv staleWorld =
     (Inr ''short.jwt'', snd (getValidToken sampleEnv staleWorld))"
    by (metis prod.collapse)
  have nofast: "snd (getValidToken sampleEnv staleWorld) \<noteq> staleWorld"
    by code_simp
  from returned_token_fresh_or_as_refreshed[OF s g] nofast
  have "\<exists>rc parsed.
       findCookie [mkCookie ''access_token_ccr'' ''stale.jwt'' (Some 1100),
              mkCookie ''refresh_token'' ''refresh-good'' None] [''refresh_token''] = Some rc \<and>
       tokenEndpoint sampleEnv (cookie_value rc) = RefreshResponse 200 (BodyObject parsed) \<and>
       ''short.jwt'' = access_token parsed \<and> ''short.jwt'' \<noteq> [] \<and>
       events (snd (getValidToken sampleEnv staleWorld)) =
         events staleWorld @ [RefreshPost (cookie_value rc), SessionWrite]"
    by blast
  then have "events (snd (getValidToken sampleEnv staleWorld)) =
     events staleWorld @ [RefreshPost ''refresh-good'', SessionWrite]"
    by (auto simp add: mkCookie_def)
  with s g show ?thesis by blast
qed

text \<open>
  Claim C4. When the stored access token is missing or does not have more than the
  minimum remaining validity, \<^verbatim>\<open>getValidToken\<close> fails
  \<^item> with a \<^verbatim>\<open>TokenExpiredError\<close>, and without any request, when the bundle has no
    refresh-token record (or one without a value);
  \<^item> with a \<^verbatim>\<open>TokenRefreshError\<close>, after exactly one refresh request and without writing
    the bundle, when the reply has a status other than 200, a body that does not parse,
    or a body without an \<^verbatim>\<open>access_token\<close>.
  Both error classes carry \<^verbatim>\<open>requiresManualReauth = true\<close>, the mark of the
  specification's AuthExpired.
\<close>

theorem stale_token_fails_without_retry:
  assumes "session w = Session cookies"
    and "\<not> (present (inspectAccessToken e (session w)) \<and>
            exceedsMinValidity (state_secondsRemaining (inspectAccessToken e (session w))))"
  shows "(findCookie cookies [''refresh_token''] = None \<longrightarrow>
            getValidToken e w = (Inl (TokenExpiredError NoRefreshToken), w))
       \<and> (\<forall>rc. findCookie cookies [''refresh_token''] = Some rc \<and> cookie_value rc = [] \<longrightarrow>
            getValidToken e w = (Inl (TokenExpiredError NoRefreshToken), w))
       \<and> (\<forall>rc status body.
            findCookie cookies [''refresh_token''] = Some rc \<and> cookie_value rc \<noteq> [] \<and>
            tokenEndpoint e (cookie_value rc) = RefreshResponse status body \<and> status \<noteq> 200 \<longrightarrow>
            getValidToken e w =
              (Inl (TokenRefreshError (EndpointStatus status)),
               w\<lparr>events := events w @ [RefreshPost (cookie_value rc)]\<rparr>))
       \<and> (\<forall>rc. findCookie cookies [''refresh_token''] = Some rc \<and> cookie_value rc \<noteq> [] \<and>
            tokenEndpoint e (cookie_value rc) = RefreshResponse 200 BodyUnparseable \<longrightarrow>
            getValidToken e w =
              (Inl (TokenRefreshError UnparseableRefreshBody),
               w\<lparr>events := events w @ [RefreshPost (cookie_value rc)]\<rparr>))
       \<and> (\<forall>rc body.
            findCookie cookies [''refresh_token''] = Some rc \<and> cookie_value rc \<noteq> [] \<and>
            tokenEndpoint e (cookie_value rc) = RefreshResponse 200 body \<and>
            (body = BodyNotObject \<or> (\<exists>parsed. body = BodyObject parsed \<and> access_token parsed = [])) \<longrightarrow>
            getValidToken e w =
              (Inl (TokenRefreshError NoAccessTokenInBody),
               w\<lparr>events := events w @ [RefreshPost (cookie_value rc)]\<rparr>))
       \<and> requiresManualReauth (TokenExpiredError NoRefreshToken)
       \<and> (\<forall>reason. requiresManualReauth (TokenRefreshError reason))"
proof -
  from assms have nf: "\<not> (present (inspectAccessToken e (Session cookies)) \<and>
            exceedsMinValidity (state_secondsRemaining (inspectAccessToken e (Session cookies))))"
    by simp
  note eq = getValidToken_not_fresh[OF assms(1) nf]
  have a: "findCookie cookies [''refresh_token''] = None \<longrightarrow>
            getValidToken e w = (Inl (TokenExpiredError NoRefreshToken), w)"
    using eq by simp
  have b: "\<forall>rc. findCookie cookies [''refresh_token''] = Some rc \<and> cookie_value rc = [] \<longrightarrow>
            getValidToken e w = (Inl (TokenExpiredError NoRefreshToken), w)"
    using eq by simp
  have c: "\<forall>rc status body.
            findCookie cookies [''refresh_token''] = Some rc \<and> cookie_value rc \<noteq> [] \<and>
            tokenEndpoint e (cookie_value rc) = RefreshResponse status body \<and> status \<noteq> 200 \<longrightarrow>
            getValidToken e w =
              (Inl (TokenRefreshError (EndpointStatus status)),
               w\<lparr>events := events w @ [RefreshPost (cookie_value rc)]\<rparr>)"
    using eq by (simp add: requestTokenRefresh_def Let_def)
  have d: "\<forall>rc. findCookie cookies [''refresh_token''] = Some rc \<and> cookie_value rc \<noteq> [] \<and>
            tokenEndpoint e (cookie_value rc) = RefreshResponse 200 BodyUnparseable \<longrightarrow>
            getValidToken e w =
              (Inl (TokenRefreshError UnparseableRefreshBody),
               w\<lparr>events := events w @ [RefreshPost (cookie_value rc)]\<rparr>)"
    using eq by (simp add: requestTokenRefresh_def Let_def)
  have f: "\<forall>rc body.
            findCookie cookies [''refresh_token''] = Some rc \<and> cookie_value rc \<noteq> [] \<and>
            tokenEndpoint e (cookie_value rc) = RefreshResponse 200 body \<and>
            (body = BodyNotObject \<or> (\<exists>parsed. body = BodyObject parsed \<and> access_token parsed = [])) \<longrightarrow>
            getValidToken e w =
              (Inl (TokenRefreshError NoAccessTokenInBody),
               w\<lparr>events := events w @ [RefreshPost (cookie_value rc)]\<rparr>)"
    using eq by (auto simp add: requestTokenRefresh_def Let_def)
  show ?thesis using a b c d f by simp
qed

text \<open>
  The theorem at two sample bundles: one without a refresh token, one whose refresh
  token the endpoint rejects with status 400.
\<close>

theorem stale_token_fails_without_retry_witness:
  "session revokedWorld =
     Session [mkCookie ''access_token_ccr'' ''stale.jwt'' (Some 1100),
              mkCookie ''refresh_token'' ''refresh-revoked'' None] \<and>
   \<not> (present (inspectAccessToken sampleEnv (session revokedWorld)) \<and>
      exceedsMinValidity
        (state_secondsRemaining (inspectAccessToken sampleEnv (session revokedWorld)))) \<and>
   getValidToken sampleEnv revokedWorld =
     (Inl (TokenRefreshError (EndpointStatus 400)),
      revokedWorld\<lparr>events := events revokedWorld @ [RefreshPost ''refresh-revoked'']\<rparr>) \<and>
   getValidToken sampleEnv noRefreshWorld =
     (Inl (TokenExpiredError NoRefreshToken), noRefreshWorld)"
proof -
  let ?cs = "[mkCookie ''access_token_ccr'' ''stale.jwt'' (Some 1100),
              mkCookie ''refresh_token'' ''refresh-revoked'' None]"
  let ?rc = "mkCookie ''refresh_token'' ''refresh-revoked'' None"
  have s: "session revokedWorld = Session ?cs"
    by (simp add: revokedWorld_def)
  have stale: "\<not> (present (inspectAccessToken sampleEnv (session revokedWorld)) \<and>
      exceedsMinValidity
        (state_secondsRemaining (inspectAccessToken sampleEnv (session revokedWorld))))"
    by code_simp
  have rc: "findCookie ?cs [''refresh_token''] = Some ?rc \<and> cookie_value ?rc \<noteq> [] \<and>
      tokenEndpoint sampleEnv (cookie_value ?rc) = RefreshResponse 400 BodyUnparseable \<and>
      (400::nat) \<noteq> 200"
    by (simp add: mkCookie_def sampleEnv_def)
  have one: "getValidToken sampleEnv revokedWorld =
     (Inl (TokenRefreshError (EndpointStatus 400)),
      revokedWorld\<lparr>events := events revokedWorld @ [RefreshPost (cookie_value ?rc)]\<rparr>)"
    using stale_token_fails_without_retry[OF s stale] rc by blast
  have s2: "session noRefreshWorld =
      Session [mkCookie ''access_token_ccr'' ''stale.jwt'' (Some 1100)]"
    by (simp add: noRefreshWorld_def)
  have stale2: "\<not> (present (inspectAccessToken sampleEnv (session noRefreshWorld)) \<and>
      exceedsMinValidity
        (state_secondsRemaining (inspectAccessToken sampleEnv (session noRefreshWorld))))"
    by code_simp
  have none: "findCookie [mkCookie ''access_token_ccr'' ''stale.jwt'' (Some 1100)]
      [''refresh_token''] = None"
    by (simp add: mkCookie_def)
  have two: "getValidToken sampleEnv noRefreshWorld =
     (Inl (TokenExpiredError NoRefreshToken), noRefreshWorld)"
    using stale_token_fails_without_retry[OF s2 stale2] none by blast
  from s stale one two show ?thesis by (simp add: mkCookie_def)
qed

section \<open>Properties of the request executor\<close>

lemma isRetryable_cases:
  "isRetryable err \<longleftrightarrow>
     (\<exists>s. err = HttpError s \<and> 500 \<le> s \<and> s < 600) \<or> err = TimeoutError \<or> err = ConnectionError"
  by (cases err) (auto simp add: isRetryable_def)

lemma isRetryable_not_fatal:
  "isRetryable err \<Longrightarrow> \<not> isTokenExpiredError err \<and> statusCode err \<noteq> Some 400"
  by (cases err) (auto simp add: isRetryable_def)

lemma requestOpportunities_retryable:
  "spec_retryable_failure (searchApi e page a) \<longleftrightarrow>
     (\<exists>err. requestOpportunities e page a = Inl err \<and> isRetryable err)"
  by (auto simp add: spec_retryable_failure_def requestOpportunities_def isRetryable_def
      split: http_reply.splits search_body.splits)

text \<open>One turn of the loop at an attempt whose outcome ends it.\<close>

lemma fetchAttempts_last:
  assumes "a \<le> mx"
    and "a = mx \<or> \<not> spec_retryable_failure (searchApi e page a)"
  shows "fetchAttempts e mx page a = (requestOpportunities e page a, [HttpGet page a])"
proof (cases "requestOpportunities e page a")
  case (Inr r)
  with assms(1) show ?thesis by (subst fetchAttempts.simps) simp
next
  case (Inl err)
  from assms(2) Inl have "a = mx \<or> \<not> isRetryable err"
    by (auto simp add: requestOpportunities_retryable)
  with Inl assms(1) show ?thesis by (subst fetchAttempts.simps) auto
qed

text \<open>One turn of the loop at an attempt that is retried.\<close>

lemma fetchAttempts_retry:
  assumes "a < mx"
    and "spec_retryable_failure (searchApi e page a)"
  shows "fetchAttempts e mx page a =
     (fst (fetchAttempts e mx page (Suc a)),
      HttpGet page a # Sleep (2 ^ (a - 1) * 1000) # snd (fetchAttempts e mx page (Suc a)))"
proof -
  from assms(2) obtain err where err: "requestOpportunities e page a = Inl err" "isRetryable err"
    by (auto simp add: requestOpportunities_retryable)
  from err(2) have "\<not> isTokenExpiredError err" "statusCode err \<noteq> Some 400"
    using isRetryable_not_fatal by blast+
  with err assms(1) show ?thesis
    by (subst fetchAttempts.simps) (simp add: Let_def)
qed

lemma fetchAttempts_run:
  assumes "j + k \<le> mx"
    and "\<forall>a. j \<le> a \<and> a < j + k \<longrightarrow> spec_retryable_failure (searchApi e page a)"
    and "j + k = mx \<or> \<not> spec_retryable_failure (searchApi e page (j + k))"
  shows "fetchAttempts e mx page j =
     (requestOpportunities e page (j + k),
      concat (map (\<lambda>a. [HttpGet page a, Sleep (2 ^ (a - 1) * 1000)]) [j..<j + k])
        @ [HttpGet page (j + k)])"
  using assms
proof (induction k arbitrary: j)
  case 0
  then show ?case using fetchAttempts_last[of j mx e page] by simp
next
  case (Suc k)
  have "j < mx" using Suc.prems(1) by simp
  moreover have "spec_retryable_failure (searchApi e page j)" using Suc.prems(2) by simp
  ultimately have step: "fetchAttempts e mx page j =
     (fst (fetchAttempts e mx page (Suc j)),
      HttpGet page j # Sleep (2 ^ (j - 1) * 1000) # snd (fetchAttempts e mx page (Suc j)))"
    by (rule fetchAttempts_retry)
  have "fetchAttempts e mx page (Suc j) =
     (requestOpportunities e page (Suc j + k),
      concat (map (\<lambda>a. [HttpGet page a, Sleep (2 ^ (a - 1) * 1000)]) [Suc j..<Suc j + k])
        @ [HttpGet page (Suc j + k)])"
    using Suc.prems by (intro Suc.IH) auto
  moreover have "[j..<j + Suc k] = j # [Suc j..<Suc j + k]"
    by (simp add: upt_conv_Cons)
  ultimately show ?case using step by simp
qed

lemma backoff_trace_shift:
  "concat (map (\<lambda>a. [HttpGet page a, Sleep (2 ^ (a - 1) * 1000)]) [1..<1 + k]) =
   concat (map (\<lambda>i. [HttpGet page (Suc i), Sleep (1000 * 2 ^ i)]) [0..<k])"
proof -
  have "[1..<1 + k] = map Suc [0..<k]"
    by (simp add: map_Suc_upt)
  then show ?thesis by (simp add: comp_def mult.commute)
qed

lemma fetchAttempts_from_first:
  assumes "k \<le> maxRetries"
    and "\<forall>i<k. spec_retryable_failure (searchApi e page (Suc i))"
    and "k = maxRetries \<or> \<not> spec_retryable_failure (searchApi e page (Suc k))"
  shows "fetchAttempts e (Suc maxRetries) page 1 =
     (requestOpportunities e page (Suc k),
      concat (map (\<lambda>i. [HttpGet page (Suc i), Sleep (1000 * 2 ^ i)]) [0..<k])
        @ [HttpGet page (Suc k)])"
proof -
  have a: "1 + k \<le> Suc maxRetries" using assms(1) by simp
  have b: "\<forall>a. 1 \<le> a \<and> a < 1 + k \<longrightarrow> spec_retryable_failure (searchApi e page a)"
  proof (intro allI impI)
    fix a assume "1 \<le> a \<and> a < 1 + k"
    then obtain i where "a = Suc i" "i < k" by (cases a) auto
    with assms(2) show "spec_retryable_failure (searchApi e page a)" by simp
  qed
  have c: "1 + k = Suc maxRetries \<or> \<not> spec_retryable_failure (searchApi e page (1 + k))"
    using assms(3) by auto
  from fetchAttempts_run[OF a b c] show ?thesis
    by (simp only: backoff_trace_shift) simp
qed


text \<open>
  Claim C5. The retry budget \<open>maxRetries\<close> is \<^verbatim>\<open>this.maxAttempts - 1\<close>, attempts are
  counted from 0 as the specification does (the source counts them from 1), and the base
  of the backoff is the constant 1000 ms of the source. After \<open>k\<close> retryable failures
  (5xx, timeout, connection error) within the budget:
  \<^item> the loop has slept \<open>1000 * 2 ^ i\<close> ms after the failure of attempt \<open>i\<close>, for every
    \<open>i < k\<close>, and then made attempt \<open>k\<close>;
  \<^item> when attempt \<open>k\<close> is the last of the budget or its outcome is not a retryable
    failure, that outcome is what the loop returns, with no further request or sleep;
  \<^item> so a retryable failure at the last attempt of the budget is propagated after
    \<open>maxRetries + 1\<close> attempts, and a 400, a 401 and a body that does not parse are
    propagated at once, whatever is left of the budget.
\<close>

theorem retry_exponential_backoff:
  assumes "k \<le> maxRetries"
    and "\<forall>i<k. spec_retryable_failure (searchApi e page (Suc i))"
  shows "(k = maxRetries \<or> \<not> spec_retryable_failure (searchApi e page (Suc k)) \<longrightarrow>
            fetchAttempts e (Suc maxRetries) page 1 =
              (requestOpportunities e page (Suc k),
               concat (map (\<lambda>i. [HttpGet page (Suc i), Sleep (1000 * 2 ^ i)]) [0..<k])
                 @ [HttpGet page (Suc k)]))
       \<and> (k = maxRetries \<and> spec_retryable_failure (searchApi e page (Suc k)) \<longrightarrow>
            (\<exists>err. isRetryable err \<and>
               fetchAttempts e (Suc maxRetries) page 1 =
                 (Inl err,
                  concat (map (\<lambda>i. [HttpGet page (Suc i), Sleep (1000 * 2 ^ i)]) [0..<k])
                    @ [HttpGet page (Suc k)])))
       \<and> (\<forall>body. searchApi e page (Suc k) = Reply 400 body \<longrightarrow>
            fetchAttempts e (Suc maxRetries) page 1 =
              (Inl (HttpError 400),
               concat (map (\<lambda>i. [HttpGet page (Suc i), Sleep (1000 * 2 ^ i)]) [0..<k])
                 @ [HttpGet page (Suc k)]))
       \<and> (\<forall>body. searchApi e page (Suc k) = Reply 401 body \<longrightarrow>
            fetchAttempts e (Suc maxRetries) page 1 =
              (Inl (TokenExpiredError Http401),
               concat (map (\<lambda>i. [HttpGet page (Suc i), Sleep (1000 * 2 ^ i)]) [0..<k])
                 @ [HttpGet page (Suc k)]))
       \<and> (searchApi e page (Suc k) = Reply 200 SearchUnparseable \<longrightarrow>
            fetchAttempts e (Suc maxRetries) page 1 =
              (Inl ParseError,
               concat (map (\<lambda>i. [HttpGet page (Suc i), Sleep (1000 * 2 ^ i)]) [0..<k])
                 @ [HttpGet page (Suc k)]))"
proof -
  let ?trace = "concat (map (\<lambda>i. [HttpGet page (Suc i), Sleep (1000 * 2 ^ i)]) [0..<k])
                 @ [HttpGet page (Suc k)]"
  have run: "fetchAttempts e (Suc maxRetries) page 1 = (requestOpportunities e page (Suc k), ?trace)"
    if "k = maxRetries \<or> \<not> spec_retryable_failure (searchApi e page (Suc k))"
    using fetchAttempts_from_first[OF assms that] .
  have exhausted: "\<exists>err. isRetryable err \<and>
      fetchAttempts e (Suc maxRetries) page 1 = (Inl err, ?trace)"
    if "k = maxRetries" "spec_retryable_failure (searchApi e page (Suc k))"
  proof -
    from that(2) obtain err where "requestOpportunities e page (Suc k) = Inl err" "isRetryable err"
      by (auto simp add: requestOpportunities_retryable)
    with run that(1) show ?thesis by auto
  qed
  have bad: "fetchAttempts e (Suc maxRetries) page 1 = (Inl (HttpError 400), ?trace)"
    if "searchApi e page (Suc k) = Reply 400 body" for body
  proof -
    from that have "\<not> spec_retryable_failure (searchApi e page (Suc k))"
      by (simp add: spec_retryable_failure_def)
    with run that show ?thesis by (simp add: requestOpportunities_def)
  qed
  have unauth: "fetchAttempts e (Suc maxRetries) page 1 = (Inl (TokenExpiredError Http401), ?trace)"
    if "searchApi e page (Suc k) = Reply 401 body" for body
  proof -
    from that have "\<not> spec_retryable_failure (searchApi e page (Suc k))"
      by (simp add: spec_retryable_failure_def)
    with run that show ?thesis by (simp add: requestOpportunities_def)
  qed
  have parse: "fetchAttempts e (Suc maxRetries) page 1 = (Inl ParseError, ?trace)"
    if "searchApi e page (Suc k) = Reply 200 SearchUnparseable"
  proof -
    from that have "\<not> spec_retryable_failure (searchApi e page (Suc k))"
      by (simp add: spec_retryable_failure_def)
    with run that show ?thesis by (simp add: requestOpportunities_def)
  qed
  show ?thesis using run exhausted bad unauth parse by blast
qed

text \<open>
  The theorem at the sample endpoint's page 7, which always answers 503, with
  \<open>maxRetries = 2\<close>: exactly three attempts, delays of 1000 and 2000 ms between them, and
  the last 503 propagated.
\<close>

theorem retry_exponential_backoff_witness:
  "(2::nat) \<le> 2 \<and>
   spec_retryable_failure (searchApi sampleEnv 7 1) \<and>
   spec_retryable_failure (searchApi sampleEnv 7 2) \<and>
   spec_retryable_failure (searchApi sampleEnv 7 3) \<and>
   searchApi sampleEnv 7 3 = Reply 503 SearchUnparseable \<and>
   fetchAttempts sampleEnv 3 7 1 =
     (Inl (HttpError 503), [HttpGet 7 1, Sleep 1000, HttpGet 7 2, Sleep 2000, HttpGet 7 3])"
proof -
  have r: "spec_retryable_failure (searchApi sampleEnv 7 a)" for a
    by (simp add: sampleEnv_def spec_retryable_failure_def)
  then have h: "\<forall>i<2. spec_retryable_failure (searchApi sampleEnv 7 (Suc i))"
    by blast
  have k: "(2::nat) \<le> 2" by simp
  have req: "requestOpportunities sampleEnv 7 (Suc 2) = Inl (HttpError 503)"
    by (simp add: requestOpportunities_def sampleEnv_def)
  have tr: "concat (map (\<lambda>i. [HttpGet 7 (Suc i), Sleep (1000 * 2 ^ i)]) [0..<2]) @ [HttpGet 7 (Suc 2)]
      = [HttpGet 7 1, Sleep 1000, HttpGet 7 2, Sleep 2000, HttpGet 7 3]"
    by (simp add: upt_rec numeral_2_eq_2 numeral_3_eq_3)
  from retry_exponential_backoff[OF k h]
  have "fetchAttempts sampleEnv (Suc 2) 7 1 =
      (requestOpportunities sampleEnv 7 (Suc 2),
       concat (map (\<lambda>i. [HttpGet 7 (Suc i), Sleep (1000 * 2 ^ i)]) [0..<2]) @ [HttpGet 7 (Suc 2)])"
    by blast
  then have "fetchAttempts sampleEnv 3 7 1 =
     (Inl (HttpError 503), [HttpGet 7 1, Sleep 1000, HttpGet 7 2, Sleep 2000, HttpGet 7 3])"
    by (simp only: req tr) (simp add: numeral_3_eq_3)
  moreover have "searchApi sampleEnv 7 3 = Reply 503 SearchUnparseable"
    by (simp add: sampleEnv_def)
  ultimately show ?thesis using r[of 1] r[of 2] r[of 3] k by blast
qed

text \<open>
  Claim C6. For every retry budget, a request answered with 401 is made exactly once:
  the loop returns the \<^verbatim>\<open>TokenExpiredError\<close> after that single attempt, with no sleep and
  no retry. More generally a 401 at any attempt ends the loop at that attempt: after \<open>k\<close>
  retried failures, the 401 answering attempt \<open>k\<close> is the last event of the loop.
\<close>

theorem unauthorized_never_retried:
  "(searchApi e page 1 = Reply 401 body \<longrightarrow>
      fetchAttempts e (Suc maxRetries) page 1 =
        (Inl (TokenExpiredError Http401), [HttpGet page 1]))
   \<and> (k \<le> maxRetries \<and> (\<forall>i<k. spec_retryable_failure (searchApi e page (Suc i))) \<and>
      searchApi e page (Suc k) = Reply 401 body \<longrightarrow>
      fetchAttempts e (Suc maxRetries) page 1 =
        (Inl (TokenExpiredError Http401),
         concat (map (\<lambda>i. [HttpGet page (Suc i), Sleep (1000 * 2 ^ i)]) [0..<k])
           @ [HttpGet page (Suc k)]))"
proof -
  have general: "fetchAttempts e (Suc maxRetries) page 1 =
        (Inl (TokenExpiredError Http401),
         concat (map (\<lambda>i. [HttpGet page (Suc i), Sleep (1000 * 2 ^ i)]) [0..<n])
           @ [HttpGet page (Suc n)])"
    if "n \<le> maxRetries" "\<forall>i<n. spec_retryable_failure (searchApi e page (Suc i))"
      "searchApi e page (Suc n) = Reply 401 body" for n
  proof -
    from that(3) have "\<not> spec_retryable_failure (searchApi e page (Suc n))"
      by (simp add: spec_retryable_failure_def)
    then have "fetchAttempts e (Suc maxRetries) page 1 =
        (requestOpportunities e page (Suc n),
         concat (map (\<lambda>i. [HttpGet page (Suc i), Sleep (1000 * 2 ^ i)]) [0..<n])
           @ [HttpGet page (Suc n)])"
      using fetchAttempts_from_first[OF that(1) that(2)] by blast
    with that(3) show ?thesis by (simp add: requestOpportunities_def)
  qed
  have first: "fetchAttempts e (Suc maxRetries) page 1 =
        (Inl (TokenExpiredError Http401), [HttpGet page 1])"
    if "searchApi e page 1 = Reply 401 body"
    using general[of 0] that by simp
  from general[of k] first show ?thesis by blast
qed

text \<open>
  The theorem at the sample endpoint's page 8, which answers 401, with budgets 5 and 0.
\<close>

theorem unauthorized_never_retried_witness:
  "searchApi sampleEnv 8 1 = Reply 401 SearchUnparseable \<and>
   fetchAttempts sampleEnv (Suc 5) 8 1 = (Inl (TokenExpiredError Http401), [HttpGet 8 1]) \<and>
   fetchAttempts sampleEnv (Suc 0) 8 1 = (Inl (TokenExpiredError Http401), [HttpGet 8 1])"
proof -
  have r: "searchApi sampleEnv 8 1 = Reply 401 SearchUnparseable"
    by (simp add: sampleEnv_def)
  from unauthorized_never_retried[of sampleEnv 8 SearchUnparseable 5 0] r
  have a: "fetchAttempts sampleEnv (Suc 5) 8 1 = (Inl (TokenExpiredError Http401), [HttpGet 8 1])"
    by blast
  from unauthorized_never_retried[of sampleEnv 8 SearchUnparseable 0 0] r
  have b: "fetchAttempts sampleEnv (Suc 0) 8 1 = (Inl (TokenExpiredError Http401), [HttpGet 8 1])"
    by blast
  from r a b show ?thesis by blast
qed

section \<open>Properties of the crawl\<close>

lemma tokenStateFields_soon:
  "(isExpiringSoon (tokenStateFields e n v x) = Some False) =
   exceedsMinValidity (state_secondsRemaining (tokenStateFields e n v x))"
  by (auto simp add: tokenStateFields_def Let_def exceedsMinValidity_def split: option.splits)

lemma inspect_soon:
  "(isExpiringSoon (inspectAccessToken e f) = Some False) =
   exceedsMinValidity (state_secondsRemaining (inspectAccessToken e f))"
  by (simp add: inspectAccessToken_def Let_def tokenStateFields_soon)

lemma inspect_present_session:
  "present (inspectAccessToken e f) \<Longrightarrow> \<exists>cookies. f = Session cookies"
  by (cases f)
     (simp_all add: inspectAccessToken_def readSessionFileSafe_def readSessionFileOrThrow_def
        findAccessCookie_def tokenStateFields_def Let_def)

lemma getValidToken_usable:
  assumes "present (inspectAccessToken e (session w))"
    and "isExpiringSoon (inspectAccessToken e (session w)) = Some False"
  shows "\<exists>tok. getValidToken e w = (Inr tok, w)"
proof -
  from assms(1) obtain cookies where s: "session w = Session cookies"
    using inspect_present_session by blast
  from assms have "present (inspectAccessToken e (Session cookies)) \<and>
    exceedsMinValidity (state_secondsRemaining (inspectAccessToken e (Session cookies)))"
    by (simp add: s inspect_soon)
  then obtain c where "findAccessCookie cookies = Some c" "cookie_value c \<noteq> []"
    "exceedsMinValidity (secondsRemaining e
          (jsOr (decodeJwtExp e (cookie_value c)) (normalizeEpochSeconds (expires c))))"
    unfolding fresh_iff by blast
  from getValidToken_fresh[OF s this] show ?thesis by blast
qed

text \<open>
  A token that is usable at some time is usable at every earlier time: the remaining
  validity only shrinks as the clock moves on.
\<close>

lemma secondsRemaining_earlier:
  assumes "t \<le> nowMs e"
    and "exceedsMinValidity (secondsRemaining e x)"
  shows "exceedsMinValidity (secondsRemaining (e\<lparr>nowMs := t\<rparr>) x)"
proof (cases x)
  case None
  with assms(2) show ?thesis by (simp add: secondsRemaining_def exceedsMinValidity_def)
next
  case (Some v)
  from assms(1) have "t div 1000 \<le> nowMs e div 1000" by (rule zdiv_mono1) simp
  then have "(of_int (t div 1000) :: rat) \<le> of_int (nowMs e div 1000)" by simp
  with Some assms(2) show ?thesis
    by (auto simp add: secondsRemaining_def exceedsMinValidity_def nowEpochSeconds_def
        split: if_splits)
qed

lemma usable_earlier:
  assumes "t \<le> nowMs e"
    and "present (inspectAccessToken e f)"
    and "isExpiringSoon (inspectAccessToken e f) = Some False"
  shows "present (inspectAccessToken (e\<lparr>nowMs := t\<rparr>) f) \<and>
         isExpiringSoon (inspectAccessToken (e\<lparr>nowMs := t\<rparr>) f) = Some False"
proof -
  have d: "decodeJwtExp (e\<lparr>nowMs := t\<rparr>) v = decodeJwtExp e v" for v
    by (simp add: decodeJwtExp_def)
  from assms(3) have "exceedsMinValidity (state_secondsRemaining (inspectAccessToken e f))"
    by (simp add: inspect_soon)
  then have "exceedsMinValidity
      (state_secondsRemaining (inspectAccessToken (e\<lparr>nowMs := t\<rparr>) f))"
    using secondsRemaining_earlier[OF assms(1)]
    by (simp add: inspectAccessToken_def tokenStateFields_def Let_def d)
  moreover have "present (inspectAccessToken (e\<lparr>nowMs := t\<rparr>) f)"
    using assms(2) by (simp add: inspectAccessToken_def tokenStateFields_def Let_def)
  ultimately show ?thesis by (simp add: inspect_soon)
qed

lemma usable_at_clock:
  assumes "elapsedMs e (events w) \<le> D"
    and "present (inspectAccessToken (e\<lparr>nowMs := nowMs e + int D\<rparr>) (session w))"
    and "isExpiringSoon (inspectAccessToken (e\<lparr>nowMs := nowMs e + int D\<rparr>) (session w))
           = Some False"
  shows "present (inspectAccessToken (clockAt e w) (session w)) \<and>
         isExpiringSoon (inspectAccessToken (clockAt e w) (session w)) = Some False"
proof -
  let ?late = "e\<lparr>nowMs := nowMs e + int D\<rparr>"
  have "nowMs e + int (elapsedMs e (events w)) \<le> nowMs ?late" using assms(1) by simp
  from usable_earlier[OF this assms(2,3)] show ?thesis by (simp add: clockAt_def)
qed

lemma fetchOpportunities_usable:
  assumes "present (inspectAccessToken (clockAt e w) (session w))"
    and "isExpiringSoon (inspectAccessToken (clockAt e w) (session w)) = Some False"
  shows "fetchOpportunities e mx page w =
     (fst (fetchAttempts e mx page 1), w\<lparr>events := events w @ snd (fetchAttempts e mx page 1)\<rparr>)"
proof -
  from getValidToken_usable[OF assms] obtain tok
    where "getValidToken (clockAt e w) w = (Inr tok, w)" ..
  then show ?thesis by (simp add: fetchOpportunities_def Let_def)
qed

lemma crawlPages_beyond:
  "maxPages < page \<Longrightarrow> crawlPages e mx maxPages page acc w = (Inr acc, w)"
  by (subst crawlPages.simps) simp

text \<open>
  A response whose \<^verbatim>\<open>resultados\<close> can be spread, and whose first listing, on page 1, can
  be printed.
\<close>

lemma crawlPages_stop:
  assumes "present (inspectAccessToken (clockAt e w) (session w))"
    and "isExpiringSoon (inspectAccessToken (clockAt e w) (session w)) = Some False"
    and "page \<le> maxPages"
    and "fst (fetchAttempts e mx page 1) = Inr (Some r)"
    and "spec_ends_crawl page r"
    and "\<forall>pl. payload r = Some pl \<longrightarrow> resultados pl \<noteq> NotIterable"
    and "page = 1 \<longrightarrow> (\<forall>first others. spec_page_items r = first # others \<longrightarrow> samplePrints first)"
  shows "crawlPages e mx maxPages page acc w =
     (Inr (acc @ spec_page_items r), w\<lparr>events := events w @ snd (fetchAttempts e mx page 1)\<rparr>)"
  using assms(3-7)
  by (subst crawlPages.simps)
     (auto simp add: fetchOpportunities_usable[OF assms(1,2)] spec_ends_crawl_def
        spec_page_items_def reachedPageCount_def
        split: option.splits results_member.splits list.splits)

lemma crawlPages_continue:
  assumes "present (inspectAccessToken (clockAt e w) (session w))"
    and "isExpiringSoon (inspectAccessToken (clockAt e w) (session w)) = Some False"
    and "page \<le> maxPages"
    and "fst (fetchAttempts e mx page 1) = Inr (Some r)"
    and "\<not> spec_ends_crawl page r"
    and "page = 1 \<longrightarrow> (\<forall>first others. spec_page_items r = first # others \<longrightarrow> samplePrints first)"
  shows "crawlPages e mx maxPages page acc w =
     crawlPages e mx maxPages (Suc page) (acc @ spec_page_items r)
       (w\<lparr>events := events w @ snd (fetchAttempts e mx page 1) @ [Sleep 1000]\<rparr>)"
  using assms(3-6)
  by (subst crawlPages.simps)
     (auto simp add: fetchOpportunities_usable[OF assms(1,2)] spec_ends_crawl_def
        spec_page_items_def reachedPageCount_def
        split: option.splits results_member.splits list.splits)

text \<open>An error of a page fetch, a 401 among them, ends the crawl with that error.\<close>

lemma crawlPages_abort:
  assumes "present (inspectAccessToken (clockAt e w) (session w))"
    and "isExpiringSoon (inspectAccessToken (clockAt e w) (session w)) = Some False"
    and "page \<le> maxPages"
    and "fst (fetchAttempts e mx page 1) = Inl err"
  shows "fst (crawlPages e mx maxPages page acc w) = Inl err"
  using assms(3,4)
  by (subst crawlPages.simps) (simp add: fetchOpportunities_usable[OF assms(1,2)])

text \<open>A body that is \<^verbatim>\<open>null\<close> ends the crawl with a \<^verbatim>\<open>TypeError\<close>.\<close>

lemma crawlPages_null_body:
  assumes "present (inspectAccessToken (clockAt e w) (session w))"
    and "isExpiringSoon (inspectAccessToken (clockAt e w) (session w)) = Some False"
    and "page \<le> maxPages"
    and "fst (fetchAttempts e mx page 1) = Inr None"
  shows "fst (crawlPages e mx maxPages page acc w) = Inl TypeError"
  using assms(3,4)
  by (subst crawlPages.simps) (simp add: fetchOpportunities_usable[OF assms(1,2)])

lemma spec_page_requests_append:
  "spec_page_requests (xs @ ys) = spec_page_requests xs @ spec_page_requests ys"
  by (induction xs rule: spec_page_requests.induct) simp_all

lemma fetchAttempts_beyond:
  "mx < a \<Longrightarrow> fetchAttempts e mx page a = (Inl RetriesExhausted, [])"
  by (subst fetchAttempts.simps) simp

lemma page_requests_later_attempts:
  "2 \<le> a \<Longrightarrow> spec_page_requests (snd (fetchAttempts e mx page a)) = []"
proof (induction "Suc mx - a" arbitrary: a)
  case 0
  then have "mx < a" by simp
  then show ?case by (simp add: fetchAttempts_beyond)
next
  case (Suc n)
  then have le: "a \<le> mx" by simp
  show ?case
  proof (cases "a < mx \<and> spec_retryable_failure (searchApi e page a)")
    case True
    have "spec_page_requests (snd (fetchAttempts e mx page (Suc a))) = []"
      using Suc by (intro Suc.hyps(1)) auto
    with True Suc.prems show ?thesis
      by (simp add: fetchAttempts_retry)
  next
    case False
    with le have "a = mx \<or> \<not> spec_retryable_failure (searchApi e page a)" by auto
    from fetchAttempts_last[OF le this] Suc.prems show ?thesis by simp
  qed
qed

lemma page_requests_fetch:
  assumes "1 \<le> mx"
  shows "spec_page_requests (snd (fetchAttempts e mx page 1)) = [page]"
proof (cases "1 < mx \<and> spec_retryable_failure (searchApi e page 1)")
  case True
  then show ?thesis
    using page_requests_later_attempts[of "Suc 1" e mx page]
    by (simp add: fetchAttempts_retry)
next
  case False
  with assms have "1 = mx \<or> \<not> spec_retryable_failure (searchApi e page 1)" by auto
  from fetchAttempts_last[OF assms this] show ?thesis by simp
qed

lemma fetch_Inr_attempts:
  "fst (fetchAttempts e mx page 1) = Inr r \<Longrightarrow> 1 \<le> mx"
  by (cases "1 \<le> mx") (simp_all add: fetchAttempts_beyond)

lemma elapsedMs_append:
  "elapsedMs e (xs @ ys) = elapsedMs e xs + elapsedMs e ys"
  by (simp add: elapsedMs_def)

lemma crawlTrace_last: "crawlTrace e mx k k = snd (fetchAttempts e mx k 1)"
  by (simp add: crawlTrace_def)

lemma crawlTrace_step:
  "j < k \<Longrightarrow> crawlTrace e mx j k =
     snd (fetchAttempts e mx j 1) @ [Sleep 1000] @ crawlTrace e mx (Suc j) k"
  by (simp add: crawlTrace_def upt_conv_Cons)

text \<open>
  The page loop on responses it can read, with a token that stays usable for as long as
  the crawl takes.
\<close>

lemma crawlPages_run:
  assumes "present (inspectAccessToken (e\<lparr>nowMs := nowMs e + int D\<rparr>) (session w))"
    and "isExpiringSoon (inspectAccessToken (e\<lparr>nowMs := nowMs e + int D\<rparr>) (session w))
           = Some False"
    and "elapsedMs e (events w) + elapsedMs e (crawlTrace e mx j k) \<le> D"
    and "j \<le> k" and "k \<le> maxPages"
    and "\<forall>p. j \<le> p \<and> p \<le> k \<longrightarrow> fst (fetchAttempts e mx p 1) = Inr (Some (resp p))"
    and "\<forall>p pl. j \<le> p \<and> p \<le> k \<and> payload (resp p) = Some pl \<longrightarrow> resultados pl \<noteq> NotIterable"
    and "j = 1 \<longrightarrow>
           (\<forall>first others. spec_page_items (resp 1) = first # others \<longrightarrow> samplePrints first)"
    and "\<forall>p. j \<le> p \<and> p < k \<longrightarrow> \<not> spec_ends_crawl p (resp p)"
    and "spec_ends_crawl k (resp k) \<or> k = maxPages"
    and "1 \<le> j"
  shows "fst (crawlPages e mx maxPages j acc w) =
           Inr (acc @ concat (map (\<lambda>p. spec_page_items (resp p)) [j..<Suc k]))
       \<and> session (snd (crawlPages e mx maxPages j acc w)) = session w
       \<and> spec_page_requests (events (snd (crawlPages e mx maxPages j acc w))) =
           spec_page_requests (events w) @ [j..<Suc k]"
  using assms
proof (induction "k - j" arbitrary: j acc w)
  case 0
  then have jk: "j = k" by simp
  have ok: "fst (fetchAttempts e mx k 1) = Inr (Some (resp k))" using "0.prems"(6) jk by simp
  have mx: "1 \<le> mx" using ok by (rule fetch_Inr_attempts)
  have "elapsedMs e (events w) \<le> D" using "0.prems"(3) by simp
  note u = usable_at_clock[OF this "0.prems"(1,2)]
  have wf: "\<forall>pl. payload (resp k) = Some pl \<longrightarrow> resultados pl \<noteq> NotIterable"
    using "0.prems"(7) jk by blast
  have pr: "k = 1 \<longrightarrow>
      (\<forall>first others. spec_page_items (resp k) = first # others \<longrightarrow> samplePrints first)"
    using "0.prems"(8) jk by simp
  show ?case
  proof (cases "spec_ends_crawl k (resp k)")
    case True
    from crawlPages_stop[OF u[THEN conjunct1] u[THEN conjunct2] "0.prems"(5) ok True wf pr, of acc]
      page_requests_fetch[OF mx, of e k]
    show ?thesis
      by (simp add: jk spec_page_requests_append)
  next
    case False
    with "0.prems"(10) have "k = maxPages" by simp
    then have "maxPages < Suc k" by simp
    from crawlPages_continue[OF u[THEN conjunct1] u[THEN conjunct2] "0.prems"(5) ok False pr, of acc]
      crawlPages_beyond[OF this] page_requests_fetch[OF mx, of e k]
    show ?thesis
      by (simp add: jk spec_page_requests_append)
  qed
next
  case (Suc n)
  then have lt: "j < k" by simp
  have ok: "fst (fetchAttempts e mx j 1) = Inr (Some (resp j))" using Suc.prems(6) lt by simp
  have mx: "1 \<le> mx" using ok by (rule fetch_Inr_attempts)
  have go: "\<not> spec_ends_crawl j (resp j)" using Suc.prems(9) lt by simp
  have le: "j \<le> maxPages" using lt Suc.prems(5) by simp
  have "elapsedMs e (events w) \<le> D" using Suc.prems(3) by simp
  note u = usable_at_clock[OF this Suc.prems(1,2)]
  have pr: "j = 1 \<longrightarrow>
      (\<forall>first others. spec_page_items (resp j) = first # others \<longrightarrow> samplePrints first)"
    using Suc.prems(8) by simp
  let ?w = "w\<lparr>events := events w @ snd (fetchAttempts e mx j 1) @ [Sleep 1000]\<rparr>"
  have step: "crawlPages e mx maxPages j acc w =
      crawlPages e mx maxPages (Suc j) (acc @ spec_page_items (resp j)) ?w"
    by (rule crawlPages_continue[OF u[THEN conjunct1] u[THEN conjunct2] le ok go pr])
  have time: "elapsedMs e (events ?w) + elapsedMs e (crawlTrace e mx (Suc j) k) \<le> D"
    using Suc.prems(3) by (simp add: crawlTrace_step[OF lt] elapsedMs_def)
  have ih: "fst (crawlPages e mx maxPages (Suc j) (acc @ spec_page_items (resp j)) ?w) =
           Inr ((acc @ spec_page_items (resp j)) @
                concat (map (\<lambda>p. spec_page_items (resp p)) [Suc j..<Suc k]))
       \<and> session (snd (crawlPages e mx maxPages (Suc j) (acc @ spec_page_items (resp j)) ?w))
           = session ?w
       \<and> spec_page_requests
           (events (snd (crawlPages e mx maxPages (Suc j) (acc @ spec_page_items (resp j)) ?w))) =
           spec_page_requests (events ?w) @ [Suc j..<Suc k]"
  proof (rule Suc.hyps(1))
    show "n = k - Suc j" using Suc.hyps(2) by simp
    show "present (inspectAccessToken (e\<lparr>nowMs := nowMs e + int D\<rparr>) (session ?w))"
      using Suc.prems(1) by simp
    show "isExpiringSoon (inspectAccessToken (e\<lparr>nowMs := nowMs e + int D\<rparr>) (session ?w))
           = Some False"
      using Suc.prems(2) by simp
    show "elapsedMs e (events ?w) + elapsedMs e (crawlTrace e mx (Suc j) k) \<le> D" by (rule time)
    show "Suc j \<le> k" using lt by simp
    show "k \<le> maxPages" by (rule Suc.prems(5))
    show "\<forall>p. Suc j \<le> p \<and> p \<le> k \<longrightarrow> fst (fetchAttempts e mx p 1) = Inr (Some (resp p))"
      using Suc.prems(6) by simp
    show "\<forall>p pl. Suc j \<le> p \<and> p \<le> k \<and> payload (resp p) = Some pl \<longrightarrow>
        resultados pl \<noteq> NotIterable"
      using Suc.prems(7) by (meson Suc_leD)
    show "Suc j = 1 \<longrightarrow>
           (\<forall>first others. spec_page_items (resp 1) = first # others \<longrightarrow> samplePrints first)"
      using Suc.prems(11) by simp
    show "\<forall>p. Suc j \<le> p \<and> p < k \<longrightarrow> \<not> spec_ends_crawl p (resp p)"
      using Suc.prems(9) by simp
    show "spec_ends_crawl k (resp k) \<or> k = maxPages" by (rule Suc.prems(10))
    show "1 \<le> Suc j" by simp
  qed
  have upt: "[j..<Suc k] = j # [Suc j..<Suc k]"
    using lt by (simp add: upt_conv_Cons)
  from ih page_requests_fetch[OF mx, of e j] show ?case
    unfolding step upt by (simp add: spec_page_requests_append del: upt_Suc)
qed


text \<open>
  The same from page 1, as \<^verbatim>\<open>scrape\<close> starts the loop: the pages requested are exactly
  \<open>1, ..., k\<close>, \<open>k\<close> the first page at which the specification lets the crawl end (or
  \<open>maxPages\<close>), and the listings returned are the items of these pages in the order of the
  server, duplicates included.
\<close>

lemma crawlPages_readable_run:
  assumes "present (inspectAccessToken (e\<lparr>nowMs := nowMs e + int D\<rparr>) (session w))"
    and "isExpiringSoon (inspectAccessToken (e\<lparr>nowMs := nowMs e + int D\<rparr>) (session w))
           = Some False"
    and "elapsedMs e (events w) + elapsedMs e (crawlTrace e maxAttempts 1 k) \<le> D"
    and "1 \<le> k" and "k \<le> maxPages"
    and "\<forall>p. 1 \<le> p \<and> p \<le> k \<longrightarrow> fst (fetchAttempts e maxAttempts p 1) = Inr (Some (resp p))"
    and "\<forall>p pl. 1 \<le> p \<and> p \<le> k \<and> payload (resp p) = Some pl \<longrightarrow> resultados pl \<noteq> NotIterable"
    and "\<forall>first others. spec_page_items (resp 1) = first # others \<longrightarrow> samplePrints first"
    and "\<forall>p. 1 \<le> p \<and> p < k \<longrightarrow> \<not> spec_ends_crawl p (resp p)"
    and "spec_ends_crawl k (resp k) \<or> k = maxPages"
  shows "fst (crawlPages e maxAttempts maxPages 1 [] w) =
           Inr (concat (map (\<lambda>p. spec_page_items (resp p)) [1..<Suc k]))
       \<and> spec_page_requests (events (snd (crawlPages e maxAttempts maxPages 1 [] w))) =
           spec_page_requests (events w) @ [1..<Suc k]"
proof -
  have pr: "(1::nat) = 1 \<longrightarrow>
      (\<forall>first others. spec_page_items (resp 1) = first # others \<longrightarrow> samplePrints first)"
    using assms(8) by simp
  have one: "(1::nat) \<le> 1" by simp
  from crawlPages_run[OF assms(1-7) pr assms(9,10) one, of "[]"] show ?thesis by simp
qed

lemma sample_fetch:
  assumes "page \<noteq> 7" and "page \<noteq> 8"
  shows "fetchAttempts sampleEnv 3 page 1 =
     (Inr (Some \<lparr> payload = Some \<lparr> resultados = Items (map Item (samplePage page)),
                                   pageCount = Some 3 \<rparr> \<rparr>),
      [HttpGet page 1])"
proof -
  have "\<not> spec_retryable_failure (searchApi sampleEnv page 1)"
    using assms by (simp add: sampleEnv_def spec_retryable_failure_def)
  then have "fetchAttempts sampleEnv 3 page 1 =
      (requestOpportunities sampleEnv page 1, [HttpGet page 1])"
    by (intro fetchAttempts_last) simp_all
  then show ?thesis using assms by (simp add: requestOpportunities_def sampleEnv_def)
qed

text \<open>
  With \<open>maxPages = 10\<close> at the sample endpoint, which reports a page count of 3, exactly
  the pages 1, 2 and 3 are requested; the crawl takes 2750 ms, after which the token
  still has more than 300 seconds. The listing \<open>B\<close> of page 1 comes again on page 3 and
  is kept twice.
\<close>

lemma crawlPages_sample_run:
  "fst (crawlPages sampleEnv 3 10 1 [] freshWorld) =
     Inr (map Item (samplePage 1 @ samplePage 2 @ samplePage 3)) \<and>
   spec_page_requests (events (snd (crawlPages sampleEnv 3 10 1 [] freshWorld))) = [1, 2, 3]"
proof -
  let ?resp = "\<lambda>p. \<lparr> payload = Some \<lparr> resultados = Items (map Item (samplePage p)),
                                     pageCount = Some 3 \<rparr> \<rparr>"
  have p: "present (inspectAccessToken (sampleEnv\<lparr>nowMs := nowMs sampleEnv + int 2750\<rparr>)
              (session freshWorld))"
    by code_simp
  have s: "isExpiringSoon (inspectAccessToken (sampleEnv\<lparr>nowMs := nowMs sampleEnv + int 2750\<rparr>)
              (session freshWorld)) = Some False"
    by code_simp
  have t: "elapsedMs sampleEnv (events freshWorld) + elapsedMs sampleEnv (crawlTrace sampleEnv 3 1 3)
      \<le> 2750"
    by code_simp
  have k: "(1::nat) \<le> 3" "(3::nat) \<le> 10" by simp_all
  have ok: "\<forall>p. 1 \<le> p \<and> p \<le> 3 \<longrightarrow> fst (fetchAttempts sampleEnv 3 p 1) = Inr (Some (?resp p))"
  proof (intro allI impI)
    fix p :: nat assume "1 \<le> p \<and> p \<le> 3"
    then have "p \<noteq> 7" "p \<noteq> 8" by simp_all
    from sample_fetch[OF this] show "fst (fetchAttempts sampleEnv 3 p 1) = Inr (Some (?resp p))"
      by simp
  qed
  have wf: "\<forall>p pl. 1 \<le> p \<and> p \<le> 3 \<and> payload (?resp p) = Some pl \<longrightarrow> resultados pl \<noteq> NotIterable"
    by auto
  have pr: "\<forall>first others. spec_page_items (?resp 1) = first # others \<longrightarrow> samplePrints first"
    by (auto simp add: spec_page_items_def samplePage_def samplePrints_def sampleOpp_def)
  have cont: "\<forall>p. 1 \<le> p \<and> p < 3 \<longrightarrow> \<not> spec_ends_crawl p (?resp p)"
    by (simp add: spec_ends_crawl_def samplePage_def)
  have stop: "spec_ends_crawl 3 (?resp 3) \<or> (3::nat) = 10"
    by (simp add: spec_ends_crawl_def)
  have ev: "events freshWorld = []" by (simp add: freshWorld_def)
  from crawlPages_readable_run[OF p s t k ok wf pr cont stop] ev
  have "fst (crawlPages sampleEnv 3 10 1 [] freshWorld) =
           Inr (concat (map (\<lambda>p. spec_page_items (?resp p)) [1..<Suc 3]))
       \<and> spec_page_requests (events (snd (crawlPages sampleEnv 3 10 1 [] freshWorld))) =
           [1..<Suc 3]"
    by simp
  moreover have "[1..<Suc 3] = [1, 2, 3]"
    by (simp add: upt_rec numeral_2_eq_2 numeral_3_eq_3)
  moreover have "concat (map (\<lambda>p. spec_page_items (?resp p)) [1, 2, 3]) =
      map Item (samplePage 1 @ samplePage 2 @ samplePage 3)"
    by (simp add: spec_page_items_def)
  ultimately show ?thesis by simp
qed

text \<open>
  The clock matters: a token with 301 seconds left serves page 1, and after the request
  and the sleep of one second it no longer has more than 300, so the fetch of page 2
  starts with a refresh.
\<close>

lemma crawlPages_refreshes_on_the_way:
  "take 4 (events (snd (crawlPages sampleEnv 3 10 1 [] edgeWorld))) =
     [HttpGet 1 1, Sleep 1000, RefreshPost ''refresh-good'', SessionWrite]"
  by code_simp

text \<open>
  Claim C7 holds of the page loop on the responses it can read, as the lemmas above show,
  but the loop does not treat every response that lacks the payload shape as the end of
  the data. When the search endpoint answers page 1 with status 200 and the body
  \<^verbatim>\<open>null\<close>, the request resolves with \<^verbatim>\<open>null\<close>, \<^verbatim>\<open>response.payload\<close> raises a \<^verbatim>\<open>TypeError\<close>
  before the test of the shape is made, and the crawl, and \<^verbatim>\<open>scrape\<close> with it, ends with
  that error after the one request.
\<close>

theorem crawl_raises_on_null_body:
  "requestOpportunities nullBodyEnv 1 1 = Inr None \<and>
   crawlPages nullBodyEnv 3 10 1 [] freshWorld =
     (Inl TypeError, freshWorld\<lparr>events := [HttpGet 1 1]\<rparr>) \<and>
   fst (scrape nullBodyEnv 3 10 False freshWorld) = Inl TypeError"
  by code_simp

text \<open>
  Two more responses on which the loop raises instead of going on or ending: a
  \<^verbatim>\<open>resultados\<close> that is an object, which cannot be spread, and, on page 1, a first listing
  without a \<^verbatim>\<open>nombre\<close>, which the sample printed there cannot read.
\<close>

lemma crawl_raises_on_unreadable_results:
  "fst (crawlPages objectResultsEnv 3 10 1 [] freshWorld) = Inl TypeError \<and>
   fst (crawlPages namelessEnv 3 10 1 [] freshWorld) = Inl TypeError"
  by code_simp

section \<open>Properties of the enrichment\<close>

lemma requestDetail_unauthorized:
  "detailApi e cod a = Reply 401 body \<Longrightarrow> requestDetail e cod a = Inl (TokenExpiredError Http401)"
  by (simp add: requestDetail_def)

lemma requestDetail_retryable:
  "spec_retryable_failure (detailApi e cod a) \<longleftrightarrow>
     (\<exists>err. requestDetail e cod a = Inl err \<and> isRetryable err)"
  by (auto simp add: spec_retryable_failure_def requestDetail_def isRetryable_def
      split: http_reply.splits detail_body.splits)

lemma isRetryable_no_client_status:
  "isRetryable err \<Longrightarrow>
     \<not> isTokenExpiredError err \<and> statusCode err \<noteq> Some 400 \<and> statusCode err \<noteq> Some 401"
  by (cases err) (auto simp add: isRetryable_def)

text \<open>One turn of the detail loop at an attempt that is answered 401.\<close>

lemma requestDetailWithRetry_last_unauthorized:
  assumes "a \<le> maxRetries"
    and "detailApi e cod a = Reply 401 body"
  shows "requestDetailWithRetry e cod maxRetries a =
     (Inl (TokenExpiredError Http401), [DetailGet cod a])"
  using assms(1) requestDetail_unauthorized[OF assms(2)]
  by (subst requestDetailWithRetry.simps) simp

text \<open>One turn of the detail loop at an attempt that is retried.\<close>

lemma requestDetailWithRetry_retry:
  assumes "a < maxRetries"
    and "spec_retryable_failure (detailApi e cod a)"
  shows "requestDetailWithRetry e cod maxRetries a =
     (fst (requestDetailWithRetry e cod maxRetries (Suc a)),
      DetailGet cod a # Sleep (2 ^ a * 1000) # snd (requestDetailWithRetry e cod maxRetries (Suc a)))"
proof -
  from assms(2) obtain err where err: "requestDetail e cod a = Inl err" "isRetryable err"
    by (auto simp add: requestDetail_retryable)
  from isRetryable_no_client_status[OF err(2)] err(1) assms(1) err(2) show ?thesis
    by (subst requestDetailWithRetry.simps) (simp add: Let_def)
qed

lemma requestDetailWithRetry_unauthorized_after:
  assumes "j + k \<le> maxRetries"
    and "\<forall>a. j \<le> a \<and> a < j + k \<longrightarrow> spec_retryable_failure (detailApi e cod a)"
    and "detailApi e cod (j + k) = Reply 401 body"
  shows "requestDetailWithRetry e cod maxRetries j =
     (Inl (TokenExpiredError Http401),
      concat (map (\<lambda>a. [DetailGet cod a, Sleep (2 ^ a * 1000)]) [j..<j + k])
        @ [DetailGet cod (j + k)])"
  using assms
proof (induction k arbitrary: j)
  case 0
  then show ?case
    using requestDetailWithRetry_last_unauthorized[of j maxRetries e cod body] by simp
next
  case (Suc k)
  have "j < maxRetries" using Suc.prems(1) by simp
  moreover have "spec_retryable_failure (detailApi e cod j)" using Suc.prems(2) by simp
  ultimately have step: "requestDetailWithRetry e cod maxRetries j =
     (fst (requestDetailWithRetry e cod maxRetries (Suc j)),
      DetailGet cod j # Sleep (2 ^ j * 1000) # snd (requestDetailWithRetry e cod maxRetries (Suc j)))"
    by (rule requestDetailWithRetry_retry)
  have "requestDetailWithRetry e cod maxRetries (Suc j) =
     (Inl (TokenExpiredError Http401),
      concat (map (\<lambda>a. [DetailGet cod a, Sleep (2 ^ a * 1000)]) [Suc j..<Suc j + k])
        @ [DetailGet cod (Suc j + k)])"
    using Suc.prems by (intro Suc.IH) auto
  moreover have "[j..<j + Suc k] = j # [Suc j..<Suc j + k]"
    by (simp add: upt_conv_Cons)
  ultimately show ?case using step by simp
qed

lemma requestDetailWithRetry_unauthorized:
  assumes "detailApi e cod 0 = Reply 401 body"
  shows "requestDetailWithRetry e cod maxRetries 0 =
     (Inl (TokenExpiredError Http401), [DetailGet cod 0])"
  using requestDetailWithRetry_last_unauthorized[OF _ assms, of maxRetries] by simp

lemma enrichSingle_unauthorized:
  assumes "detailApi e (codigo opp) 0 = Reply 401 body"
  shows "enrichSingle e opp maxRetries = (None, [DetailGet (codigo opp) 0])"
  by (simp add: enrichSingle_def requestDetailWithRetry_unauthorized[OF assms])

text \<open>
  A 401 after \<open>k\<close> retried failures: the listing is dropped at that attempt, with no
  sleep and no request after it.
\<close>

lemma enrichSingle_unauthorized_after:
  assumes "k \<le> maxRetries"
    and "\<forall>i<k. spec_retryable_failure (detailApi e (codigo opp) i)"
    and "detailApi e (codigo opp) k = Reply 401 body"
  shows "enrichSingle e opp maxRetries =
     (None,
      concat (map (\<lambda>i. [DetailGet (codigo opp) i, Sleep (1000 * 2 ^ i)]) [0..<k])
        @ [DetailGet (codigo opp) k])"
proof -
  have a: "0 + k \<le> maxRetries" using assms(1) by simp
  have b: "\<forall>a. 0 \<le> a \<and> a < 0 + k \<longrightarrow> spec_retryable_failure (detailApi e (codigo opp) a)"
    using assms(2) by simp
  have c: "detailApi e (codigo opp) (0 + k) = Reply 401 body" using assms(3) by simp
  from requestDetailWithRetry_unauthorized_after[OF a b c]
  show ?thesis by (simp add: enrichSingle_def mult.commute)
qed

lemma map_filter_map:
  "List.map_filter f (map g xs) = List.map_filter (\<lambda>x. f (g x)) xs"
  by (induction xs) (simp_all add: List.map_filter_simps split: option.splits)

lemma map_filter_app:
  "List.map_filter f (xs @ ys) = List.map_filter f xs @ List.map_filter f ys"
  by (simp add: List.map_filter_def)

lemma map_filter_take_drop:
  "List.map_filter f (take n xs) @ List.map_filter f (drop n xs) = List.map_filter f xs"
proof -
  have "List.map_filter f (take n xs @ drop n xs) = List.map_filter f xs" by simp
  then show ?thesis by (simp only: map_filter_app)
qed

lemma enrichWindows_result:
  assumes "0 < c"
  shows "fst (enrichWindows e fl c mr start acc w) =
     acc @ List.map_filter (\<lambda>opp. fst (enrichSingle e opp mr)) (drop start fl)"
  using assms
proof (induction e fl c mr start acc w rule: enrichWindows.induct)
  case (1 e filtered concurrency maxRetries start acc w)
  show ?case
  proof (cases "start < length filtered")
    case True
    let ?batch = "take concurrency (drop start filtered)"
    let ?settled = "map (\<lambda>opp. enrichSingle e opp maxRetries) ?batch"
    let ?acc = "acc @ List.map_filter fst ?settled"
    let ?w = "w\<lparr>events := events w @ concat (map snd ?settled)\<rparr>"
    have ih: "fst (enrichWindows e filtered concurrency maxRetries (start + concurrency) ?acc ?w) =
        ?acc @ List.map_filter (\<lambda>opp. fst (enrichSingle e opp maxRetries))
                 (drop (start + concurrency) filtered)"
    proof -
      have c: "start < length filtered \<and> 0 < concurrency" using True "1.prems" by simp
      show ?thesis by (rule "1.IH"[OF c refl refl refl refl "1.prems"])
    qed
    have unfold: "enrichWindows e filtered concurrency maxRetries start acc w =
        enrichWindows e filtered concurrency maxRetries (start + concurrency) ?acc ?w"
      using True "1.prems" by (subst enrichWindows.simps) (simp add: Let_def del: map_map)
    have "drop (start + concurrency) filtered = drop concurrency (drop start filtered)"
      by (simp add: add.commute)
    then have "List.map_filter (\<lambda>opp. fst (enrichSingle e opp maxRetries)) ?batch @
          List.map_filter (\<lambda>opp. fst (enrichSingle e opp maxRetries))
            (drop (start + concurrency) filtered) =
          List.map_filter (\<lambda>opp. fst (enrichSingle e opp maxRetries)) (drop start filtered)"
      by (simp only: map_filter_take_drop)
    with ih show ?thesis
      by (simp add: unfold map_filter_map)
  next
    case False
    then show ?thesis
      by (subst enrichWindows.simps) (simp add: List.map_filter_simps)
  qed
qed


text \<open>
  Claim C1 fails. Two eligible listings are enriched in windows of one. The detail
  request for \<open>A\<close>, in the first window, is answered 401, which \<^verbatim>\<open>requestDetail\<close> turns
  into a \<^verbatim>\<open>TokenExpiredError\<close>. The run does not end there: the second window still
  requests the detail of \<open>B\<close>, and the run returns the enriched \<open>B\<close> and no error.
\<close>

theorem unauthorized_detail_counterexample:
  "requestDetail sampleEnv ''A'' 0 = Inl (TokenExpiredError Http401) \<and>
   shouldEnrich sampleEnv (sampleOpp ''A'' ''15/03/2026 10:00'' (Some 0)) (nowMs sampleEnv) \<and>
   shouldEnrich sampleEnv (sampleOpp ''B'' ''15/03/2026 10:00'' (Some 0)) (nowMs sampleEnv) \<and>
   enrichOpportunities sampleEnv
     [sampleOpp ''A'' ''15/03/2026 10:00'' (Some 0), sampleOpp ''B'' ''15/03/2026 10:00'' (Some 0)]
     \<lparr> opt_concurrency = Some 1, opt_timeoutMs = None, opt_maxRetries = None \<rparr> freshWorld
   = (Inr [mapDetail (sampleOpp ''B'' ''15/03/2026 10:00'' (Some 0)) sampleDetail],
      freshWorld\<lparr>events := [DetailGet ''A'' 0, DetailGet ''B'' 0]\<rparr>)"
  by code_simp

text \<open>
  Claim C1 as amended. A detail request answered 401 is not retried, and the listing is
  dropped as after any other failure of its request: \<^verbatim>\<open>enrichSingle\<close> gives \<^verbatim>\<open>null\<close> after
  the single attempt when the 401 answers the first attempt, and, when the 401 comes
  after \<open>k\<close> retried failures, at that attempt, with no sleep and no request after it.
  The batcher goes on with the remaining listings and windows, and
  what it returns is, for every eligible listing in the order of the input, the enriched
  listing when its own request succeeded and nothing otherwise. The only error a run can
  end with is the one of \<^verbatim>\<open>getValidToken\<close>, called once before the first window.
\<close>

theorem failed_detail_is_dropped:
  "(\<forall>opp body maxRetries. detailApi e (codigo opp) 0 = Reply 401 body \<longrightarrow>
       enrichSingle e opp maxRetries = (None, [DetailGet (codigo opp) 0]))
   \<and> (\<forall>opp body maxRetries k.
         k \<le> maxRetries \<and> (\<forall>i<k. spec_retryable_failure (detailApi e (codigo opp) i)) \<and>
         detailApi e (codigo opp) k = Reply 401 body \<longrightarrow>
         enrichSingle e opp maxRetries =
           (None,
            concat (map (\<lambda>i. [DetailGet (codigo opp) i, Sleep (1000 * 2 ^ i)]) [0..<k])
              @ [DetailGet (codigo opp) k]))
   \<and> fst (enrichOpportunities e opportunities options w) =
       (if filter (\<lambda>opp. shouldEnrich e opp (nowMs e)) opportunities = [] then Inr []
        else
          (case fst (getValidToken e w) of
             Inl err \<Rightarrow> Inl err
           | Inr bearerToken \<Rightarrow>
               Inr (List.map_filter
                      (\<lambda>opp. fst (enrichSingle e opp
                          (case opt_maxRetries options of
                             None \<Rightarrow> 3
                           | Some r \<Rightarrow> if r \<ge> 0 then nat r else 3)))
                      (filter (\<lambda>opp. shouldEnrich e opp (nowMs e)) opportunities))))"
proof -
  let ?filtered = "filter (\<lambda>opp. shouldEnrich e opp (nowMs e)) opportunities"
  let ?c = "case opt_concurrency options of None \<Rightarrow> 5 | Some c \<Rightarrow> if c > 0 then nat c else 5"
  let ?mr = "case opt_maxRetries options of None \<Rightarrow> 3 | Some r \<Rightarrow> if r \<ge> 0 then nat r else 3"
  have pos: "0 < ?c" by (simp split: option.splits)
  have windows: "fst (enrichWindows e ?filtered ?c ?mr 0 [] w') =
      List.map_filter (\<lambda>opp. fst (enrichSingle e opp ?mr)) ?filtered" for w'
    using enrichWindows_result[OF pos, of e ?filtered ?mr 0 "[]" w'] by simp
  have run: "fst (enrichOpportunities e opportunities options w) =
       (if ?filtered = [] then Inr []
        else
          (case fst (getValidToken e w) of
             Inl err \<Rightarrow> Inl err
           | Inr bearerToken \<Rightarrow>
               Inr (List.map_filter (\<lambda>opp. fst (enrichSingle e opp ?mr)) ?filtered)))"
  proof (cases "?filtered = []")
    case True
    then show ?thesis by (simp add: enrichOpportunities_def Let_def)
  next
    case False
    then have ne: "opportunities \<noteq> []" by auto
    obtain res w' where g: "getValidToken e w = (res, w')" by (cases "getValidToken e w")
    show ?thesis
    proof (cases res)
      case (Inl err)
      with False ne g show ?thesis by (simp add: enrichOpportunities_def Let_def)
    next
      case (Inr tok)
      with False ne g windows[of w'] show ?thesis
        by (simp add: enrichOpportunities_def Let_def)
    qed
  qed
  have drop: "\<forall>opp body maxRetries. detailApi e (codigo opp) 0 = Reply 401 body \<longrightarrow>
       enrichSingle e opp maxRetries = (None, [DetailGet (codigo opp) 0])"
    using enrichSingle_unauthorized by blast
  have later: "\<forall>opp body maxRetries k.
         k \<le> maxRetries \<and> (\<forall>i<k. spec_retryable_failure (detailApi e (codigo opp) i)) \<and>
         detailApi e (codigo opp) k = Reply 401 body \<longrightarrow>
         enrichSingle e opp maxRetries =
           (None,
            concat (map (\<lambda>i. [DetailGet (codigo opp) i, Sleep (1000 * 2 ^ i)]) [0..<k])
              @ [DetailGet (codigo opp) k])"
  proof (intro allI impI)
    fix opp :: opportunity and body maxRetries k
    assume h: "k \<le> maxRetries \<and> (\<forall>i<k. spec_retryable_failure (detailApi e (codigo opp) i)) \<and>
         detailApi e (codigo opp) k = Reply 401 body"
    from h have h1: "k \<le> maxRetries" by (rule conjunct1)
    from h have h2: "\<forall>i<k. spec_retryable_failure (detailApi e (codigo opp) i)"
      by (rule conjunct2[THEN conjunct1])
    from h have h3: "detailApi e (codigo opp) k = Reply 401 body"
      by (rule conjunct2[THEN conjunct2])
    show "enrichSingle e opp maxRetries =
           (None,
            concat (map (\<lambda>i. [DetailGet (codigo opp) i, Sleep (1000 * 2 ^ i)]) [0..<k])
              @ [DetailGet (codigo opp) k])"
      by (rule enrichSingle_unauthorized_after[OF h1 h2 h3])
  qed
  show ?thesis
    apply (rule conjI)
     apply (rule drop)
    apply (rule conjI)
     apply (rule later)
    apply (rule run)
    done
qed

text \<open>
  The theorem at the sample listing \<open>A\<close>, whose detail request is answered 401, and at
  the sample listing \<open>D\<close>, whose detail request is answered 503 and then, at the retry,
  401: after the one retry of the 503 the 401 is not retried, and \<open>D\<close> is dropped.
\<close>

theorem failed_detail_is_dropped_witness:
  "detailApi sampleEnv (codigo (sampleOpp ''A'' ''15/03/2026 10:00'' (Some 0))) 0
     = Reply 401 DetailUnparseable \<and>
   enrichSingle sampleEnv (sampleOpp ''A'' ''15/03/2026 10:00'' (Some 0)) 3
     = (None, [DetailGet ''A'' 0]) \<and>
   spec_retryable_failure (detailApi sampleEnv ''D'' 0) \<and>
   detailApi sampleEnv ''D'' 1 = Reply 401 DetailUnparseable \<and>
   enrichSingle sampleEnv (sampleOpp ''D'' ''15/03/2026 10:00'' (Some 0)) 3
     = (None, [DetailGet ''D'' 0, Sleep 1000, DetailGet ''D'' 1])"
proof -
  let ?a = "sampleOpp ''A'' ''15/03/2026 10:00'' (Some 0)"
  let ?d = "sampleOpp ''D'' ''15/03/2026 10:00'' (Some 0)"
  have r: "detailApi sampleEnv (codigo ?a) 0 = Reply 401 DetailUnparseable"
    by (simp add: sampleEnv_def sampleOpp_def)
  note first = failed_detail_is_dropped[of sampleEnv, THEN conjunct1]
  from first[THEN spec, THEN spec, THEN spec, THEN mp, OF r]
  have "enrichSingle sampleEnv ?a 3 = (None, [DetailGet (codigo ?a) 0])" .
  then have one: "enrichSingle sampleEnv ?a 3 = (None, [DetailGet ''A'' 0])"
    by (simp add: sampleOpp_def)
  have cd: "codigo ?d = ''D''" by (simp add: sampleOpp_def)
  have d0: "spec_retryable_failure (detailApi sampleEnv ''D'' 0)"
    by (simp add: sampleEnv_def spec_retryable_failure_def)
  have d1: "detailApi sampleEnv ''D'' 1 = Reply 401 DetailUnparseable"
    by (simp add: sampleEnv_def)
  have h: "(1::nat) \<le> 3 \<and> (\<forall>i<1. spec_retryable_failure (detailApi sampleEnv (codigo ?d) i)) \<and>
      detailApi sampleEnv (codigo ?d) 1 = Reply 401 DetailUnparseable"
    using d0 d1 by (simp add: cd)
  note later = failed_detail_is_dropped[of sampleEnv, THEN conjunct2, THEN conjunct1]
  from later[THEN spec, THEN spec, THEN spec, THEN spec, THEN mp, OF h]
  have "enrichSingle sampleEnv ?d 3 =
      (None,
       concat (map (\<lambda>i. [DetailGet (codigo ?d) i, Sleep (1000 * 2 ^ i)]) [0..<1])
         @ [DetailGet (codigo ?d) 1])" .
  then have two: "enrichSingle sampleEnv ?d 3 = (None, [DetailGet ''D'' 0, Sleep 1000, DetailGet ''D'' 1])"
    by (simp add: cd)
  from r one d0 d1 two show ?thesis by (intro conjI)
qed

section \<open>Properties of the eligibility test and of the session monitor\<close>

text \<open>
  Claim C8. At a fixed time \<open>now\<close>, \<^verbatim>\<open>shouldEnrich\<close> accepts a listing exactly when its
  count of own offers is 0, its count of offers is 0, its closing time parses, and the
  parsed closing time minus \<open>now\<close> lies between 0 and 72 hours (in milliseconds), both
  ends included. A closing time that does not parse, one in the past and one more than
  72 hours ahead are rejected.
\<close>

theorem shouldEnrich_window:
  "(shouldEnrich e opp now \<longleftrightarrow>
      misOfertas opp = Some 0 \<and> numeroOfertas opp = Some 0 \<and>
      (\<exists>closing. parseClosingDate e (fechaCierre opp) = Some closing \<and>
         0 \<le> closing - now \<and> closing - now \<le> 72 * 60 * 60 * 1000))
   \<and> (parseClosingDate e (fechaCierre opp) = None \<longrightarrow> \<not> shouldEnrich e opp now)
   \<and> (\<forall>closing. parseClosingDate e (fechaCierre opp) = Some closing \<and> closing < now \<longrightarrow>
         \<not> shouldEnrich e opp now)
   \<and> (\<forall>closing. parseClosingDate e (fechaCierre opp) = Some closing \<and>
         closing > now + 72 * 60 * 60 * 1000 \<longrightarrow> \<not> shouldEnrich e opp now)"
proof (cases "parseClosingDate e (fechaCierre opp)")
  case None
  then show ?thesis by (simp add: shouldEnrich_def Let_def)
next
  case (Some closing)
  then show ?thesis by (auto simp add: shouldEnrich_def Let_def)
qed

text \<open>
  The examples of the specification at the sample clock: a closing 50 hours ahead is
  accepted (its day-first date takes the second parser); 80 hours ahead, one hour ago,
  10 hours ahead with one own offer, and a date that does not parse are rejected.
\<close>

theorem shouldEnrich_window_witness:
  "parseClosingDate sampleEnv (Text ''15/03/2026 10:00'') = Some (nowMs sampleEnv + 50 * 3600000) \<and>
   shouldEnrich sampleEnv (sampleOpp ''X'' ''15/03/2026 10:00'' (Some 0)) (nowMs sampleEnv) \<and>
   parseClosingDate sampleEnv (Text ''2026-03-16T16:00:00'') = Some (nowMs sampleEnv + 80 * 3600000) \<and>
   \<not> shouldEnrich sampleEnv (sampleOpp ''X'' ''2026-03-16T16:00:00'' (Some 0)) (nowMs sampleEnv) \<and>
   parseClosingDate sampleEnv (Text ''13/03/2026   07:00:00'') = Some (nowMs sampleEnv - 3600000) \<and>
   \<not> shouldEnrich sampleEnv (sampleOpp ''X'' ''13/03/2026   07:00:00'' (Some 0)) (nowMs sampleEnv) \<and>
   parseClosingDate sampleEnv (Text ''2026-03-13T18:00:00'') = Some (nowMs sampleEnv + 10 * 3600000) \<and>
   \<not> shouldEnrich sampleEnv (sampleOpp ''X'' ''2026-03-13T18:00:00'' (Some 1)) (nowMs sampleEnv) \<and>
   parseClosingDate sampleEnv (Text ''pronto'') = None \<and>
   \<not> shouldEnrich sampleEnv (sampleOpp ''X'' ''pronto'' (Some 0)) (nowMs sampleEnv)"
proof -
  have n: "nowMs sampleEnv = 1000000" by (simp add: sampleEnv_def)
  have p1: "parseClosingDate sampleEnv (Text ''15/03/2026 10:00'') = Some 181000000" by code_simp
  have p2: "parseClosingDate sampleEnv (Text ''2026-03-16T16:00:00'') = Some 289000000" by code_simp
  have p3: "parseClosingDate sampleEnv (Text ''13/03/2026   07:00:00'') = Some (- 2600000)" by code_simp
  have p4: "parseClosingDate sampleEnv (Text ''2026-03-13T18:00:00'') = Some 37000000" by code_simp
  have p5: "parseClosingDate sampleEnv (Text ''pronto'') = None" by code_simp
  have f: "fechaCierre (sampleOpp c d own) = Text d" "misOfertas (sampleOpp c d own) = own"
    "numeroOfertas (sampleOpp c d own) = Some 0" for c d own
    by (simp_all add: sampleOpp_def)
  have e1: "shouldEnrich sampleEnv (sampleOpp ''X'' ''15/03/2026 10:00'' (Some 0)) 1000000"
    using shouldEnrich_window[of sampleEnv "sampleOpp ''X'' ''15/03/2026 10:00'' (Some 0)" 1000000]
    by (simp add: f p1)
  have e2: "\<not> shouldEnrich sampleEnv (sampleOpp ''X'' ''2026-03-16T16:00:00'' (Some 0)) 1000000"
    using shouldEnrich_window[of sampleEnv "sampleOpp ''X'' ''2026-03-16T16:00:00'' (Some 0)" 1000000]
    by (simp add: f p2)
  have e3: "\<not> shouldEnrich sampleEnv (sampleOpp ''X'' ''13/03/2026   07:00:00'' (Some 0)) 1000000"
    using shouldEnrich_window[of sampleEnv "sampleOpp ''X'' ''13/03/2026   07:00:00'' (Some 0)" 1000000]
    by (simp add: f p3)
  have e4: "\<not> shouldEnrich sampleEnv (sampleOpp ''X'' ''2026-03-13T18:00:00'' (Some 1)) 1000000"
    using shouldEnrich_window[of sampleEnv "sampleOpp ''X'' ''2026-03-13T18:00:00'' (Some 1)" 1000000]
    by (simp add: f p4)
  have e5: "\<not> shouldEnrich sampleEnv (sampleOpp ''X'' ''pronto'' (Some 0)) 1000000"
    using shouldEnrich_window[of sampleEnv "sampleOpp ''X'' ''pronto'' (Some 0)" 1000000]
    by (simp add: f p5)
  from p1 p2 p3 p4 p5 e1 e2 e3 e4 e5 show ?thesis by (simp add: n)
qed

lemma fold_min_Min: "fold min hs (h::rat) = Min (set (h # hs))"
  by (simp only: Min.set_eq_fold)

lemma classify_level:
  "level (classify cfg signals) = spec_verdict cfg signals"
proof (cases "List.map_filter (\<lambda>h. h) signals")
  case Nil
  then show ?thesis by (simp add: classify_def spec_verdict_def)
next
  case (Cons h hs)
  then show ?thesis
    by (simp add: classify_def spec_verdict_def Let_def fold_min_Min del: Min.set_eq_fold set_simps)
qed

lemma classify_code:
  "code (classify cfg signals) = exitCode (level (classify cfg signals))"
  by (simp add: classify_def exitCode_def Let_def split: list.splits)

lemma probeApi_ok:
  "probeApi e tok \<longleftrightarrow> tok \<noteq> [] \<and> (\<exists>body. probeReply e tok = Reply 200 body)"
  by (auto simp add: probeApi_def split: http_reply.splits)

text \<open>
  The verdict of \<^verbatim>\<open>classify\<close> against the words of the specification: for every list of
  signals the level is the verdict on the minimum of the parseable signals, the code is
  2, 1 or 0 accordingly, and with no parseable signal the level is WARN.
\<close>

lemma verdict_of_signals:
  "level (classify cfg signals) = spec_verdict cfg signals
   \<and> code (classify cfg signals) = exitCode (spec_verdict cfg signals)
   \<and> (List.map_filter (\<lambda>h. h) signals = [] \<longrightarrow> level (classify cfg signals) = WARN)"
proof -
  have a: "level (classify cfg signals) = spec_verdict cfg signals"
    by (rule classify_level)
  have b: "code (classify cfg signals) = exitCode (spec_verdict cfg signals)"
    using classify_code[of cfg signals] by (simp add: classify_level)
  have c: "List.map_filter (\<lambda>h. h) signals = [] \<longrightarrow> level (classify cfg signals) = WARN"
    by (simp add: classify_def)
  from a b c show ?thesis by (intro conjI)
qed

text \<open>
  \<^verbatim>\<open>buildTokenState\<close> raises exactly when the expiry it found is beyond the range of
  dates, and then \<^verbatim>\<open>inspectToken\<close> raises too.
\<close>

lemma buildTokenState_raises:
  "buildTokenState e cName cValue cExpires = Inl err \<longleftrightarrow>
     err = RangeError \<and>
     (\<exists>x. expiresAtEpochSeconds (tokenStateFields e cName cValue cExpires) = Some x \<and>
          \<not> dateInRange (x * 1000))"
  by (auto simp add: buildTokenState_def Let_def split: option.splits)

lemma buildTokenState_returns:
  "buildTokenState e cName cValue cExpires = Inr st \<Longrightarrow>
     st = tokenStateFields e cName cValue cExpires"
  by (auto simp add: buildTokenState_def Let_def split: option.splits if_splits)

lemma inspectToken_access:
  "inspectToken e f = Inr (accessState, refreshState) \<Longrightarrow> accessState = inspectAccessToken e f"
  by (auto simp add: inspectToken_def inspectAccessToken_def Let_def
      dest: buildTokenState_returns split: sum.splits)

text \<open>
  \<^verbatim>\<open>main\<close> on a bundle whose token states \<^verbatim>\<open>inspectToken\<close> could build: a probe that is
  enabled and fails (no token to send, a status other than 200, a timeout or a connection
  error) gives CRITICAL with code 2 whatever the signals say; otherwise the outcome is
  the one of \<^verbatim>\<open>classify\<close> on the three signals.
\<close>

lemma main_outcome:
  assumes "inspectToken e (Session cookies) = Inr (accessState, refreshState)"
  shows "main e cfg (Session cookies) =
     Inr (if DO_PROBE cfg \<and>
             \<not> probeApi e
                 (case find (\<lambda>c. cookie_name c = ''access_token_ccr'' \<or>
                                  cookie_name c = ''access_token'') cookies of
                    None \<Rightarrow> [] | Some c \<Rightarrow> cookie_value c)
          then \<lparr> level = CRITICAL, code = 2, reason = ProbeFailed \<rparr>
          else classify cfg
                 [hAccess (inspectAccessToken e (Session cookies)),
                  hIdentity e cookies, hSession e cookies])"
  using assms inspectToken_access[OF assms]
  by (simp add: main_def Let_def)

text \<open>
  \<^verbatim>\<open>main\<close> on a bundle on which \<^verbatim>\<open>inspectToken\<close> raises: the error leaves \<^verbatim>\<open>main\<close>, whatever
  the signals and the probe would have said, and the process ends with the exit code 1.
\<close>

lemma main_raises:
  assumes "inspectToken e (Session cookies) = Inl err"
  shows "main e cfg (Session cookies) = Inl err \<and>
         processExitCode (main e cfg (Session cookies)) = 1"
  using assms by (simp add: main_def processExitCode_def)

text \<open>
  The monitor at the sample bundles. The bundle whose only signal is 48 hours is OK on the
  signals and CRITICAL once the probe, which the sample endpoint answers 401, is enabled.
  An identity cookie whose \<^verbatim>\<open>exp\<close> is written as a string is a signal of the monitor,
  though \<^verbatim>\<open>decodeJwtExp\<close> does not read it. A file that holds the JSON text \<^verbatim>\<open>null\<close> raises
  a \<^verbatim>\<open>TypeError\<close> at \<^verbatim>\<open>session.cookies\<close>. With the default thresholds, 5 hours is
  CRITICAL, 10 hours WARN, 48 hours OK, no parseable signal WARN.
\<close>

lemma monitor_samples:
  "main sampleEnv (defaultConfig False) (session healthyWorld)
     = Inr \<lparr> level = OK, code = 0, reason = Healthy 48 \<rparr> \<and>
   main sampleEnv (defaultConfig True) (session healthyWorld)
     = Inr \<lparr> level = CRITICAL, code = 2, reason = ProbeFailed \<rparr> \<and>
   decodeJwtExp sampleEnv ''text.jwt'' = None \<and>
   main sampleEnv (defaultConfig False) (session identityWorld)
     = Inr \<lparr> level = OK, code = 0, reason = Healthy 48 \<rparr> \<and>
   main sampleEnv (defaultConfig False) NullDocument = Inl TypeError \<and>
   processExitCode (main sampleEnv (defaultConfig False) NullDocument) = 1 \<and>
   map (\<lambda>hs. level (classify (defaultConfig False) hs))
     [[Some 5], [Some 10], [Some 48], [None, None], [Some 48, None, Some 10], [Some 0]]
     = [CRITICAL, WARN, OK, WARN, WARN, CRITICAL]"
  by code_simp


end
